theory Spec2Isabelle
  imports Complex_Main "HOL-Library.Log_Nat" "HOL-Library.Product_Lexorder"
begin

section \<open>Python values\<close>

subsection \<open>Floats\<close>

text \<open>
  A Python \<^verbatim>\<open>float\<close> is an IEEE-754 binary64 number. A finite one is modelled by the
  rational it denotes; a decimal literal of the source denotes the binary64 number nearest to
  it (ties to the even significand), which \<open>double\<close> computes. Only the normal range is
  modelled (no overflow, no subnormals): every constant of the configuration lies in it.
\<close>

definition pow2 :: "int \<Rightarrow> rat" where
  "pow2 e = (if 0 \<le> e then 2 ^ nat e else 1 / 2 ^ nat (- e))"

definition binade :: "rat \<Rightarrow> int" where
  \<comment> \<open>the exponent \<open>e\<close> with \<open>2 ^ e \<le> x < 2 ^ (e + 1)\<close>, for \<open>x > 0\<close>\<close>
  "binade x = (let (p, q) = quotient_of x; e = bitlen p - bitlen q
               in if pow2 e \<le> x then e else e - 1)"

definition round_half_even :: "rat \<Rightarrow> int" where
  "round_half_even x =
     (let f = \<lfloor>x\<rfloor>; d = x - of_int f
      in if d < 1 / 2 then f else if 1 / 2 < d then f + 1 else if even f then f else f + 1)"

definition double :: "rat \<Rightarrow> rat" where
  \<comment> \<open>round to 53 significant bits\<close>
  "double x =
     (if x = 0 then 0
      else let e = binade \<bar>x\<bar> - 52
           in sgn x * of_int (round_half_even (\<bar>x\<bar> / pow2 e)) * pow2 e)"

definition fadd :: "rat \<Rightarrow> rat \<Rightarrow> rat" where
  \<comment> \<open>Python's \<^verbatim>\<open>a + b\<close> on floats\<close>
  "fadd a b = double (a + b)"

text \<open>
  A float cell of a table is finite or infinite (\<^verbatim>\<open>pd.to_numeric\<close> reads \<^verbatim>\<open>"inf"\<close>);
  NaN is the table's null and is not a value of this type.
\<close>

datatype xfloat = NInf | Fin rat | PInf

fun xle :: "xfloat \<Rightarrow> xfloat \<Rightarrow> bool" where
  "xle NInf _ = True"
| "xle _ PInf = True"
| "xle (Fin a) (Fin b) = (a \<le> b)"
| "xle _ _ = False"

definition xlt :: "xfloat \<Rightarrow> xfloat \<Rightarrow> bool" where
  "xlt a b = (\<not> xle b a)"

subsection \<open>Strings\<close>

text \<open>
  A \<open>string\<close> is a list of 8-bit characters, read as the code points below 256 of a Python
  \<^verbatim>\<open>str\<close>. \<^verbatim>\<open>str.strip()\<close> removes leading and trailing whitespace: the code points
  for which \<^verbatim>\<open>str.isspace()\<close> holds.
\<close>

definition isspace :: "char \<Rightarrow> bool" where
  "isspace c = (let n = (of_char c :: int)
                in (9 \<le> n \<and> n \<le> 13) \<or> (28 \<le> n \<and> n \<le> 32) \<or> n = 133 \<or> n = 160)"

definition strip :: "string \<Rightarrow> string" where
  "strip s = rev (dropWhile isspace (rev (dropWhile isspace s)))"

definition digit_val :: "char \<Rightarrow> int option" where
  "digit_val c = (let n = (of_char c :: int) in if 48 \<le> n \<and> n \<le> 57 then Some (n - 48) else None)"

fun digits_val :: "int \<Rightarrow> string \<Rightarrow> int option" where
  \<comment> \<open>the number a string of decimal digits denotes, after the digits read so far\<close>
  "digits_val acc [] = Some acc"
| "digits_val acc (c # cs) =
     (case digit_val c of None \<Rightarrow> None | Some d \<Rightarrow> digits_val (10 * acc + d) cs)"

definition int_of_digits :: "string \<Rightarrow> int option" where
  "int_of_digits s = (if s = [] then None else digits_val 0 s)"

subsection \<open>Timestamps\<close>

record datetime =
  year :: int
  month :: int
  day :: int
  hour :: int
  minute :: int
  second :: int

definition dt_key :: "datetime \<Rightarrow> int \<times> int \<times> int \<times> int \<times> int \<times> int" where
  "dt_key d = (year d, month d, day d, hour d, minute d, second d)"

definition dt_le :: "datetime \<Rightarrow> datetime \<Rightarrow> bool" where
  \<comment> \<open>chronological order: lexicographic on the fields\<close>
  "dt_le a b = (dt_key a \<le> dt_key b)"

definition parse_time :: "string \<Rightarrow> (int \<times> int \<times> int) option" where
  \<comment> \<open>\<^verbatim>\<open>HH:MM:SS\<close>, with an optional fraction \<^verbatim>\<open>.fff\<close> that is dropped\<close>
  "parse_time s =
     (if 8 \<le> length s \<and> s ! 2 = CHR '':'' \<and> s ! 5 = CHR '':''
         \<and> (length s = 8 \<or> (s ! 8 = CHR ''.'' \<and> int_of_digits (drop 9 s) \<noteq> None))
      then (case (int_of_digits (take 2 s), int_of_digits (take 2 (drop 3 s)),
                  int_of_digits (take 2 (drop 6 s))) of
              (Some h, Some mi, Some se) \<Rightarrow>
                if h < 24 \<and> mi < 60 \<and> se < 60 then Some (h, mi, se) else None
            | _ \<Rightarrow> None)
      else None)"

definition parse_iso :: "string \<Rightarrow> datetime option" where
  \<comment> \<open>\<^verbatim>\<open>YYYY-MM-DD\<close>, alone or followed by \<^verbatim>\<open>T\<close> and a time of day\<close>
  "parse_iso s =
     (if 10 \<le> length s \<and> s ! 4 = CHR ''-'' \<and> s ! 7 = CHR ''-''
      then (case (int_of_digits (take 4 s), int_of_digits (take 2 (drop 5 s)),
                  int_of_digits (take 2 (drop 8 (take 10 s)))) of
              (Some y, Some m, Some d) \<Rightarrow>
                if 1 \<le> m \<and> m \<le> 12 \<and> 1 \<le> d \<and> d \<le> 31
                then (if length s = 10
                      then Some \<lparr>year = y, month = m, day = d, hour = 0, minute = 0, second = 0\<rparr>
                      else if s ! 10 = CHR ''T''
                      then (case parse_time (drop 11 s) of
                              Some (h, mi, se) \<Rightarrow>
                                Some \<lparr>year = y, month = m, day = d,
                                      hour = h, minute = mi, second = se\<rparr>
                            | None \<Rightarrow> None)
                      else None)
                else None
            | _ \<Rightarrow> None)
      else None)"

section \<open>config/settings.py\<close>

definition API_PAGE_SIZE :: int where
  "API_PAGE_SIZE = 50000"

definition TRAIN_START :: string where
  "TRAIN_START = ''2019-01-01''"

definition VALID_END :: string where
  "VALID_END = ''2022-08-06''"

definition SMMLV :: "int \<rightharpoonup> int" where
  "SMMLV = map_of [(2019, 828116), (2020, 877803), (2021, 908526), (2022, 1000000),
                   (2023, 1160000)]"

definition WEIGHT_PROCESS_ANOMALY :: rat where
  "WEIGHT_PROCESS_ANOMALY = double (55 / 100)"

definition WEIGHT_SPLITTING :: rat where
  "WEIGHT_SPLITTING = double (25 / 100)"

definition WEIGHT_NETWORK :: rat where
  "WEIGHT_NETWORK = double (10 / 100)"

definition WEIGHT_COMMUNITY :: rat where
  "WEIGHT_COMMUNITY = double (10 / 100)"

definition TIER_LOW :: rat where
  "TIER_LOW = double (3 / 10)"

definition TIER_HIGH :: rat where
  "TIER_HIGH = double (6 / 10)"

definition SPLITTING_WINDOWS_DAYS :: "int list" where
  "SPLITTING_WINDOWS_DAYS = [30, 60, 90]"

definition THRESHOLD_PROXIMITY_PCT :: rat where
  "THRESHOLD_PROXIMITY_PCT = double (10 / 100)"

subsection \<open>Tiering\<close>

text \<open>
  Modelled from the spec: the function that assigns \<^verbatim>\<open>risk_tier\<close> is part of the scoring
  pipeline, which is not among the source files (the dashboard only reads the column). The
  spec fixes it as "\<^verbatim>\<open>risk_tier = High if score in high band else Medium if in medium band
  else Low\<close>, using the two fixed tier cut-points", with "Low \<open>\<le>\<close> 0.3 boundary region,
  High \<open>\<ge>\<close> 0.6 boundary region".
\<close>

datatype tier = Low | Medium | High

definition in_high_band :: "rat \<Rightarrow> bool" where
  "in_high_band score = (TIER_HIGH \<le> score)"

definition in_medium_band :: "rat \<Rightarrow> bool" where
  "in_medium_band score = (TIER_LOW < score \<and> score < TIER_HIGH)"

definition risk_tier :: "rat \<Rightarrow> tier" where
  "risk_tier score =
     (if in_high_band score then High else if in_medium_band score then Medium else Low)"

section \<open>Tables\<close>

text \<open>
  A cell of a pandas table: missing (\<^verbatim>\<open>None\<close>, \<^verbatim>\<open>NaN\<close>, \<^verbatim>\<open>NaT\<close>), a string, a number,
  a boolean or a timestamp. A JSON object of the API and a row of a table are association
  lists from column names to cells, each key once; a key that is absent reads as missing, as
  it does when pandas builds a table from records.
\<close>

datatype cell = Null | Str string | Num xfloat | Bool bool | Time datetime

type_synonym dict = "(string \<times> cell) list"

definition dict_get :: "dict \<Rightarrow> string \<Rightarrow> cell" where
  "dict_get d k = (case map_of d k of None \<Rightarrow> Null | Some v \<Rightarrow> v)"

fun dict_set :: "dict \<Rightarrow> string \<Rightarrow> cell \<Rightarrow> dict" where
  "dict_set [] k v = [(k, v)]"
| "dict_set ((k', v') # d) k v = (if k' = k then (k, v) # d else (k', v') # dict_set d k v)"

datatype dtype = Object | Float64 | BoolT | Datetime64

text \<open>
  A table has its columns, each with the dtype pandas keeps for it, and its rows, each with
  its index label.
\<close>

record dataframe =
  columns :: "(string \<times> dtype) list"
  rows :: "(nat \<times> dict) list"

text \<open>
  The exceptions of the model: the \<^verbatim>\<open>KeyError\<close> of a column that is missing, the
  \<^verbatim>\<open>TypeError\<close> of a comparison between a string or a timestamp and a number, and the
  \<^verbatim>\<open>RequestException\<close> of a failed request. Where the library raises for another reason
  (the \<^verbatim>\<open>.str\<close> accessor on an object column that holds no string, a pattern that is not
  a regular expression, a frame that cannot be written to Parquet) the code returns nothing
  and the model still returns: what is proved of every result of the model holds of every
  result of the code.
\<close>

datatype error = KeyError string | TypeError | RequestException

text \<open>
  The functions of the pandas library whose results depend on its parsers and on its type
  inference are parameters of the model: \<^verbatim>\<open>pd.to_numeric(_, errors="coerce")\<close> and
  \<^verbatim>\<open>pd.to_datetime(_, errors="coerce")\<close> give, for a column and a cell of it, the value read
  or nothing (the cell becomes missing); \<open>infer_dtype\<close> is the dtype a new column gets from
  its cells, \<open>common_type\<close> the dtype of a concatenated column from the dtypes of its parts
  (\<open>None\<close> for a part that lacks the column), and \<open>str_contains\<close> the cell-wise result of
  \<^verbatim>\<open>.astype(str).str.contains(pat, na=False)\<close>.
\<close>

record pandas =
  to_numeric :: "cell list \<Rightarrow> cell \<Rightarrow> xfloat option"
  to_datetime :: "cell list \<Rightarrow> cell \<Rightarrow> datetime option"
  infer_dtype :: "cell list \<Rightarrow> dtype"
  common_type :: "dtype option list \<Rightarrow> dtype"
  str_contains :: "string \<Rightarrow> cell \<Rightarrow> bool"

definition uniq :: "'a list \<Rightarrow> 'a list" where
  \<comment> \<open>the distinct elements, in the order of their first occurrence\<close>
  "uniq xs = rev (remdups (rev xs))"

definition reindex :: "string list \<Rightarrow> dict \<Rightarrow> dict" where
  "reindex cols d = map (\<lambda>c. (c, dict_get d c)) cols"

definition DataFrame :: "pandas \<Rightarrow> dict list \<Rightarrow> dataframe" where
  \<comment> \<open>\<^verbatim>\<open>pd.DataFrame(batch)\<close>\<close>
  "DataFrame pd batch =
     (let cols = uniq (concat (map (map fst) batch))
      in \<lparr>columns = map (\<lambda>c. (c, infer_dtype pd (map (\<lambda>d. dict_get d c) batch))) cols,
          rows = zip [0..<length batch] (map (reindex cols) batch)\<rparr>)"

definition pd_concat :: "pandas \<Rightarrow> dataframe list \<Rightarrow> dataframe" where
  \<comment> \<open>\<^verbatim>\<open>pd.concat(chunks, ignore_index=True)\<close>\<close>
  "pd_concat pd chunks =
     (let cols = uniq (concat (map (\<lambda>df. map fst (columns df)) chunks));
          rs = concat (map (\<lambda>df. map snd (rows df)) chunks)
      in \<lparr>columns = map (\<lambda>c. (c, common_type pd (map (\<lambda>df. map_of (columns df) c) chunks))) cols,
          rows = zip [0..<length rs] (map (reindex cols) rs)\<rparr>)"

definition has_column :: "dataframe \<Rightarrow> string \<Rightarrow> bool" where
  \<comment> \<open>\<^verbatim>\<open>col in df.columns\<close>\<close>
  "has_column df c = (c \<in> set (map fst (columns df)))"

definition column :: "dataframe \<Rightarrow> string \<Rightarrow> cell list" where
  "column df c = map (\<lambda>(i, r). dict_get r c) (rows df)"

definition getitem :: "dataframe \<Rightarrow> string \<Rightarrow> error + cell list" where
  \<comment> \<open>\<^verbatim>\<open>df[c]\<close>\<close>
  "getitem df c = (if has_column df c then Inr (column df c) else Inl (KeyError c))"

definition setitem :: "dataframe \<Rightarrow> string \<Rightarrow> dtype \<Rightarrow> cell list \<Rightarrow> dataframe" where
  \<comment> \<open>\<^verbatim>\<open>df[c] = series\<close>, for a series of dtype \<open>t\<close> aligned with the rows\<close>
  "setitem df c t vals =
     \<lparr>columns = (if has_column df c
                 then map (\<lambda>(c', t'). if c' = c then (c, t) else (c', t')) (columns df)
                 else columns df @ [(c, t)]),
      rows = map (\<lambda>((i, r), v). (i, dict_set r c v)) (zip (rows df) vals)\<rparr>"

definition getitem_mask :: "dataframe \<Rightarrow> bool list \<Rightarrow> dataframe" where
  \<comment> \<open>\<^verbatim>\<open>df[mask]\<close> and \<^verbatim>\<open>df.loc[mask]\<close>, for a boolean series aligned with the rows\<close>
  "getitem_mask df keep = df\<lparr>rows := map fst (filter snd (zip (rows df) keep))\<rparr>"

definition reset_index :: "dataframe \<Rightarrow> dataframe" where
  \<comment> \<open>\<^verbatim>\<open>df.reset_index(drop=True)\<close>\<close>
  "reset_index df = df\<lparr>rows := zip [0..<length (rows df)] (map snd (rows df))\<rparr>"

definition notna :: "cell \<Rightarrow> bool" where
  "notna c = (c \<noteq> Null)"

definition dropna :: "dataframe \<Rightarrow> string list \<Rightarrow> error + dataframe" where
  \<comment> \<open>\<^verbatim>\<open>df.dropna(subset=cols)\<close>: the rows with no missing cell in \<open>cols\<close>\<close>
  "dropna df cols =
     (case filter (\<lambda>c. \<not> has_column df c) cols of
        c # _ \<Rightarrow> Inl (KeyError c)
      | [] \<Rightarrow> Inr (getitem_mask df
                 (map (\<lambda>(i, r). list_all (\<lambda>c. notna (dict_get r c)) cols) (rows df))))"

definition select_dtypes :: "dataframe \<Rightarrow> dtype \<Rightarrow> string list" where
  \<comment> \<open>\<^verbatim>\<open>df.select_dtypes(include=t).columns\<close>\<close>
  "select_dtypes df t = map fst (filter (\<lambda>(c, t'). t' = t) (columns df))"

fun cell_cmp :: "(xfloat \<Rightarrow> xfloat \<Rightarrow> bool) \<Rightarrow> cell \<Rightarrow> xfloat \<Rightarrow> bool option" where
  \<comment> \<open>a cell compared with a number: false on a missing cell, a \<^verbatim>\<open>TypeError\<close> (\<open>None\<close>)
      on a string or a timestamp\<close>
  "cell_cmp rel Null y = Some False"
| "cell_cmp rel (Num x) y = Some (rel x y)"
| "cell_cmp rel (Bool b) y = Some (rel (Fin (if b then 1 else 0)) y)"
| "cell_cmp rel (Str s) y = None"
| "cell_cmp rel (Time t) y = None"

definition series_cmp ::
  "(xfloat \<Rightarrow> xfloat \<Rightarrow> bool) \<Rightarrow> cell list \<Rightarrow> xfloat \<Rightarrow> error + bool list" where
  "series_cmp rel xs y =
     (case those (map (\<lambda>c. cell_cmp rel c y) xs) of None \<Rightarrow> Inl TypeError | Some bs \<Rightarrow> Inr bs)"

definition and_mask :: "bool list \<Rightarrow> bool list \<Rightarrow> bool list" where
  \<comment> \<open>\<^verbatim>\<open>a & b\<close> on aligned boolean series\<close>
  "and_mask a b = map (\<lambda>(x, y). x \<and> y) (zip a b)"

definition bind :: "error + 'a \<Rightarrow> ('a \<Rightarrow> error + 'b) \<Rightarrow> error + 'b" where
  \<comment> \<open>evaluation in sequence: an exception ends it\<close>
  "bind x f = (case x of Inl e \<Rightarrow> Inl e | Inr a \<Rightarrow> f a)"

section \<open>src/ingest/secop\_client.py\<close>

definition COLUMNS :: "string list" where
  "COLUMNS =
     [''id_contrato'', ''codigo_entidad'', ''nit_entidad'', ''nombre_entidad'',
      ''departamento'', ''ciudad'', ''orden'', ''sector'', ''rama'', ''codigo_proveedor'',
      ''documento_proveedor'', ''proveedor_adjudicado'', ''modalidad_de_contratacion'',
      ''tipo_de_contrato'', ''estado_contrato'', ''codigo_de_categoria_principal'',
      ''descripcion_del_proceso'', ''objeto_del_contrato'', ''fecha_de_firma'',
      ''fecha_de_inicio_del_contrato'', ''fecha_de_fin_del_contrato'', ''valor_del_contrato'',
      ''dias_adicionados'', ''destino_gasto'', ''origen_de_los_recursos'', ''espostconflicto'',
      ''es_pyme'', ''duraci_n_del_contrato'']"

definition DATE_COLS :: "string list" where
  "DATE_COLS = [''fecha_de_firma'', ''fecha_de_inicio_del_contrato'', ''fecha_de_fin_del_contrato'']"

text \<open>
  The \<^verbatim>\<open>$where\<close> clause of \<^verbatim>\<open>fetch_page\<close>, which the API evaluates on a record's start date
  and value:
  \<^verbatim>\<open>fecha_de_inicio_del_contrato >= '{TRAIN_START}T00:00:00' AND
  fecha_de_inicio_del_contrato <= '{VALID_END}T23:59:59' AND valor_del_contrato > '0'\<close>.
\<close>

definition where_clause :: "datetime \<Rightarrow> xfloat \<Rightarrow> bool" where
  "where_clause fecha_de_inicio valor =
     (case (parse_iso (TRAIN_START @ ''T00:00:00''), parse_iso (VALID_END @ ''T23:59:59'')) of
        (Some lo, Some hi) \<Rightarrow> dt_le lo fecha_de_inicio \<and> dt_le fecha_de_inicio hi \<and> xlt (Fin 0) valor
      | _ \<Rightarrow> False)"

text \<open>
  \<^verbatim>\<open>fetch_page(offset, limit)\<close> sends one request. What the endpoint answers to a request
  with a given offset and limit is \<open>api\<close>: a page of records, or nothing when the request
  raises (\<^verbatim>\<open>requests\<close> raises only subclasses of \<^verbatim>\<open>RequestException\<close>).
\<close>

type_synonym endpoint = "int \<Rightarrow> int \<Rightarrow> dict list option"

definition fetch_page :: "endpoint \<Rightarrow> int \<Rightarrow> int \<Rightarrow> error + dict list" where
  "fetch_page api offset limit =
     (case api offset limit of None \<Rightarrow> Inl RequestException | Some batch \<Rightarrow> Inr batch)"

definition num_cell :: "xfloat option \<Rightarrow> cell" where
  "num_cell v = (case v of None \<Rightarrow> Null | Some x \<Rightarrow> Num x)"

definition time_cell :: "datetime option \<Rightarrow> cell" where
  "time_cell v = (case v of None \<Rightarrow> Null | Some t \<Rightarrow> Time t)"

definition fillna :: "cell \<Rightarrow> cell \<Rightarrow> cell" where
  "fillna v c = (if c = Null then v else c)"

definition str_strip :: "cell \<Rightarrow> cell" where
  \<comment> \<open>\<^verbatim>\<open>Series.str.strip()\<close> on one cell: a cell that is not a string becomes missing\<close>
  "str_strip c = (case c of Str s \<Rightarrow> Str (strip s) | _ \<Rightarrow> Null)"

definition gt_zero :: "cell list \<Rightarrow> bool list" where
  \<comment> \<open>\<^verbatim>\<open>series > 0\<close> on a numeric column; false on a missing cell\<close>
  "gt_zero xs = map (\<lambda>c. cell_cmp (\<lambda>x y. xlt y x) c (Fin 0) = Some True) xs"

definition clean_dataframe :: "pandas \<Rightarrow> dataframe \<Rightarrow> error + dataframe" where
  "clean_dataframe pd df =
     bind (getitem df ''valor_del_contrato'') (\<lambda>valor.
     let df1 = setitem df ''valor_del_contrato'' Float64
                 (map (\<lambda>c. num_cell (to_numeric pd valor c)) valor)
     in bind (getitem df1 ''dias_adicionados'') (\<lambda>dias.
     let df2 = setitem df1 ''dias_adicionados'' Float64
                 (map (\<lambda>c. fillna (Num (Fin 0)) (num_cell (to_numeric pd dias c))) dias);
         df3 = fold (\<lambda>col d.
                  if has_column d col
                  then setitem d col Datetime64
                         (map (\<lambda>c. time_cell (to_datetime pd (column d col) c)) (column d col))
                  else d) DATE_COLS df2;
         str_cols = select_dtypes df3 Object;
         df4 = fold (\<lambda>col d. setitem d col Object (map str_strip (column d col))) str_cols df3
     in bind (dropna df4 [''valor_del_contrato'', ''fecha_de_inicio_del_contrato'']) (\<lambda>df5.
        bind (getitem df5 ''valor_del_contrato'') (\<lambda>valor5.
        Inr (reset_index (getitem_mask df5 (gt_zero valor5)))))))"

record pull_state =
  chunks :: "dataframe list"
  offset :: int
  total_fetched :: int

datatype step = Break pull_state | Continue pull_state

definition page_limit :: "int option \<Rightarrow> pull_state \<Rightarrow> int" where
  "page_limit max_rows st =
     (case max_rows of None \<Rightarrow> API_PAGE_SIZE
      | Some m \<Rightarrow> min API_PAGE_SIZE (m - total_fetched st))"

definition loop_body :: "pandas \<Rightarrow> int option \<Rightarrow> endpoint \<Rightarrow> pull_state \<Rightarrow> step" where
  \<comment> \<open>one iteration of \<^verbatim>\<open>while True\<close>, the endpoint answering as \<open>api\<close>\<close>
  "loop_body pd max_rows api st =
     (let limit = page_limit max_rows st
      in if max_rows \<noteq> None \<and> limit \<le> 0 then Break st
         else case fetch_page api (offset st) limit of
                Inl e \<Rightarrow> Break st
              | Inr batch \<Rightarrow>
                  if batch = [] then Break st
                  else let st' = \<lparr>chunks = chunks st @ [DataFrame pd batch],
                                   offset = offset st + int (length batch),
                                   total_fetched = total_fetched st + int (length batch)\<rparr>
                       in if int (length batch) < limit then Break st' else Continue st')"

text \<open>
  The loop, against the answers the endpoint gives to the successive requests. With no bound
  on the rows the loop runs for as long as full pages arrive, so the answers are a list and
  the loop's value is \<open>None\<close> when it asks for more answers than the list holds.
\<close>

fun fetch_loop :: "pandas \<Rightarrow> int option \<Rightarrow> endpoint list \<Rightarrow> pull_state \<Rightarrow> pull_state option" where
  "fetch_loop pd max_rows [] st =
     (if max_rows \<noteq> None \<and> page_limit max_rows st \<le> 0 then Some st else None)"
| "fetch_loop pd max_rows (api # apis) st =
     (case loop_body pd max_rows api st of
        Break st' \<Rightarrow> Some st'
      | Continue st' \<Rightarrow> fetch_loop pd max_rows apis st')"

fun loop_states :: "pandas \<Rightarrow> int option \<Rightarrow> endpoint list \<Rightarrow> pull_state \<Rightarrow> pull_state list" where
  \<comment> \<open>the states of the loop: at the head of each iteration and where it ends\<close>
  "loop_states pd max_rows [] st = [st]"
| "loop_states pd max_rows (api # apis) st =
     st # (case loop_body pd max_rows api st of
             Break st' \<Rightarrow> [st']
           | Continue st' \<Rightarrow> loop_states pd max_rows apis st')"

datatype outcome = NoData | Saved dataframe

definition pull_data :: "pandas \<Rightarrow> endpoint list \<Rightarrow> int option \<Rightarrow> (error + outcome) option" where
  \<comment> \<open>\<open>NoData\<close>: nothing fetched, \<^verbatim>\<open>None\<close> is returned; \<open>Saved df\<close>: \<open>df\<close> is written to the
      Parquet file\<close>
  "pull_data pd apis max_rows =
     (case fetch_loop pd max_rows apis \<lparr>chunks = [], offset = 0, total_fetched = 0\<rparr> of
        None \<Rightarrow> None
      | Some st \<Rightarrow>
          Some (if chunks st = [] then Inr NoData
                else bind (clean_dataframe pd (pd_concat pd (chunks st)))
                       (\<lambda>df. Inr (Saved df))))"

section \<open>dashboard/app.py\<close>

definition between :: "cell list \<Rightarrow> int \<Rightarrow> int \<Rightarrow> error + bool list" where
  \<comment> \<open>\<^verbatim>\<open>series.between(left, right)\<close>: \<^verbatim>\<open>(series >= left) & (series <= right)\<close>\<close>
  "between xs left right =
     bind (series_cmp (\<lambda>x y. xle y x) xs (Fin (of_int left))) (\<lambda>ge_left.
     bind (series_cmp xle xs (Fin (of_int right))) (\<lambda>le_right.
     Inr (and_mask ge_left le_right)))"

definition isin :: "cell list \<Rightarrow> cell list \<Rightarrow> bool list" where
  \<comment> \<open>\<^verbatim>\<open>series.isin(vs)\<close>\<close>
  "isin xs vs = map (\<lambda>c. c \<in> set vs) xs"

definition apply_filters ::
  "dataframe \<Rightarrow> int \<times> int \<Rightarrow> cell list \<Rightarrow> cell list \<Rightarrow> cell list \<Rightarrow> error + dataframe" where
  "apply_filters df years sectors tiers depts =
     bind (getitem df ''year'') (\<lambda>ys.
     bind (between ys (fst years) (snd years)) (\<lambda>keep.
     let out = getitem_mask df keep
     in bind (if tiers \<noteq> []
              then bind (getitem out ''risk_tier'') (\<lambda>s. Inr (getitem_mask out (isin s tiers)))
              else Inr out) (\<lambda>out.
        bind (if sectors \<noteq> []
              then bind (getitem out ''sector'') (\<lambda>s. Inr (getitem_mask out (isin s sectors)))
              else Inr out) (\<lambda>out.
        bind (if depts \<noteq> []
              then bind (getitem out ''departamento'') (\<lambda>s. Inr (getitem_mask out (isin s depts)))
              else Inr out) (\<lambda>out.
        Inr out)))))"

definition explorer_mask ::
  "pandas \<Rightarrow> dataframe \<Rightarrow> int \<times> int \<Rightarrow> cell list \<Rightarrow> cell list \<Rightarrow> cell list
     \<Rightarrow> string \<Rightarrow> string \<Rightarrow> rat \<Rightarrow> error + bool list" where
  \<comment> \<open>the mask of the Contract Explorer (tab 3)\<close>
  "explorer_mask pd df selected_years selected_sectors selected_tiers selected_dept
       search_vendor search_agency min_risk =
     bind (getitem df ''year'') (\<lambda>ys.
     bind (between ys (fst selected_years) (snd selected_years)) (\<lambda>m.
     bind (if selected_tiers \<noteq> []
           then bind (getitem df ''risk_tier'') (\<lambda>s. Inr (and_mask m (isin s selected_tiers)))
           else Inr m) (\<lambda>m.
     bind (if selected_sectors \<noteq> []
           then bind (getitem df ''sector'') (\<lambda>s. Inr (and_mask m (isin s selected_sectors)))
           else Inr m) (\<lambda>m.
     bind (if selected_dept \<noteq> []
           then bind (getitem df ''departamento'') (\<lambda>s. Inr (and_mask m (isin s selected_dept)))
           else Inr m) (\<lambda>m.
     bind (if strip search_vendor \<noteq> []
           then bind (getitem df ''codigo_proveedor'')
                  (\<lambda>s. Inr (and_mask m (map (str_contains pd (strip search_vendor)) s)))
           else Inr m) (\<lambda>m.
     bind (if strip search_agency \<noteq> []
           then bind (getitem df ''codigo_entidad'')
                  (\<lambda>s. Inr (and_mask m (map (str_contains pd (strip search_agency)) s)))
           else Inr m) (\<lambda>m.
     bind (if 0 < min_risk
           then bind (getitem df ''risk_score_calibrated'') (\<lambda>s.
                bind (series_cmp (\<lambda>x y. xle y x) s (Fin min_risk)) (\<lambda>ge_min.
                Inr (and_mask m ge_min)))
           else Inr m) (\<lambda>m.
     Inr m))))))))"

definition display_cols :: "string list" where
  "display_cols =
     [''id_contrato'', ''codigo_entidad'', ''codigo_proveedor'', ''valor_del_contrato'',
      ''year'', ''sector'', ''risk_tier'', ''risk_score_calibrated'', ''process_anomaly_score'',
      ''splitting_score'', ''network_score'', ''is_direct'', ''is_modified'']"

definition explorer_rows ::
  "pandas \<Rightarrow> dataframe \<Rightarrow> int \<times> int \<Rightarrow> cell list \<Rightarrow> cell list \<Rightarrow> cell list
     \<Rightarrow> string \<Rightarrow> string \<Rightarrow> rat \<Rightarrow> error + dataframe" where
  \<comment> \<open>the rows of \<open>df\<close> that \<^verbatim>\<open>df.loc[mask, available_cols]\<close> takes\<close>
  "explorer_rows pd df selected_years selected_sectors selected_tiers selected_dept
       search_vendor search_agency min_risk =
     bind (explorer_mask pd df selected_years selected_sectors selected_tiers selected_dept
             search_vendor search_agency min_risk)
       (\<lambda>m. Inr (getitem_mask df m))"

subsection \<open>The columns read from the per-contract table\<close>

text \<open>
  The columns of \<^verbatim>\<open>risk_scores.parquet\<close> (the frame \<^verbatim>\<open>df\<close> and the frames filtered from
  it) that each part of the dashboard reads, in the order of the source.
\<close>

definition load_contracts_columns :: "string list" where
  "load_contracts_columns = [''fecha_de_inicio_del_contrato'']"

definition sidebar_columns :: "string list" where
  "sidebar_columns = [''year'', ''sector'', ''departamento'']"

definition apply_filters_columns :: "string list" where
  "apply_filters_columns = [''year'', ''risk_tier'', ''sector'', ''departamento'']"

definition tab1_columns :: "string list" where
  "tab1_columns =
     [''valor_del_contrato'', ''risk_tier'', ''is_direct'', ''risk_tier'', ''year'',
      ''id_contrato'', ''is_direct'', ''sector'', ''risk_tier'']"

definition tab2_columns :: "string list" where
  "tab2_columns =
     [''codigo_entidad'', ''codigo_entidad'', ''sector'', ''codigo_entidad'',
      ''valor_del_contrato'', ''risk_score_calibrated'', ''risk_tier'', ''risk_tier'',
      ''codigo_proveedor'', ''valor_del_contrato'', ''fecha_de_inicio_del_contrato'',
      ''risk_score_calibrated'', ''risk_tier'', ''id_contrato'', ''codigo_proveedor'',
      ''valor_del_contrato'', ''risk_score_calibrated'', ''process_anomaly_score'',
      ''splitting_score'', ''network_score'', ''risk_tier'', ''risk_score_calibrated'']"

definition tab3_columns :: "string list" where
  "tab3_columns =
     [''year'', ''risk_tier'', ''sector'', ''departamento'', ''codigo_proveedor'',
      ''codigo_entidad'', ''risk_score_calibrated''] @ display_cols @ [''risk_score_calibrated'']"

definition contract_columns_read :: "string list" where
  "contract_columns_read =
     load_contracts_columns @ sidebar_columns @ apply_filters_columns @ tab1_columns
       @ tab2_columns @ tab3_columns"

text \<open>
  The per-contract schema as the spec words it (section 6): "one row per contract (id, all
  sub-scores, composite score, tier, and original dimensional columns needed for filtering:
  year, sector, department, agency id, vendor id, value, is\_direct, is\_modified)", under
  the column names of the data model (section 3) and of the ingested contract.
\<close>

definition per_contract_schema :: "string list" where
  "per_contract_schema =
     [''id_contrato'', ''process_anomaly_score'', ''splitting_score'', ''network_score'',
      ''risk_score_calibrated'', ''risk_tier'', ''year'', ''sector'', ''departamento'',
      ''codigo_entidad'', ''codigo_proveedor'', ''valor_del_contrato'', ''is_direct'',
      ''is_modified'']"

section \<open>An instance of the library\<close>

text \<open>
  The theorems hold for every \<open>pandas\<close>. To run the model on concrete inputs, this instance
  reads plain decimal numbers and ISO-8601 timestamps (the formats of the API's payloads),
  infers dtypes as pandas does for columns of strings, numbers and booleans, and searches
  for a pattern as literal text in string, boolean and missing cells.
\<close>

definition parse_decimal :: "string \<Rightarrow> rat option" where
  "parse_decimal s =
     (let neg = (s \<noteq> [] \<and> hd s = CHR ''-'');
          body = (if s \<noteq> [] \<and> (hd s = CHR ''-'' \<or> hd s = CHR ''+'') then tl s else s);
          ip = takeWhile (\<lambda>c. c \<noteq> CHR ''.'') body;
          rest = dropWhile (\<lambda>c. c \<noteq> CHR ''.'') body
      in case (int_of_digits ip, if rest = [] then Some 0 else int_of_digits (tl rest)) of
           (Some i, Some f) \<Rightarrow>
             Some ((if neg then - 1 else 1) * (of_int i + of_int f / 10 ^ (length rest - 1)))
         | _ \<Rightarrow> None)"

definition ref_to_numeric :: "cell list \<Rightarrow> cell \<Rightarrow> xfloat option" where
  "ref_to_numeric col c =
     (case c of
        Null \<Rightarrow> None
      | Str s \<Rightarrow> map_option (\<lambda>x. Fin (double x)) (parse_decimal (strip s))
      | Num x \<Rightarrow> Some x
      | Bool b \<Rightarrow> Some (Fin (if b then 1 else 0))
      | Time t \<Rightarrow> None)"

definition ref_to_datetime :: "cell list \<Rightarrow> cell \<Rightarrow> datetime option" where
  "ref_to_datetime col c = (case c of Str s \<Rightarrow> parse_iso s | Time t \<Rightarrow> Some t | _ \<Rightarrow> None)"

definition ref_infer_dtype :: "cell list \<Rightarrow> dtype" where
  "ref_infer_dtype cs =
     (if cs \<noteq> [] \<and> list_all (\<lambda>c. case c of Bool b \<Rightarrow> True | _ \<Rightarrow> False) cs then BoolT
      else if list_ex (\<lambda>c. case c of Num x \<Rightarrow> True | _ \<Rightarrow> False) cs
              \<and> list_all (\<lambda>c. case c of Num x \<Rightarrow> True | Null \<Rightarrow> True | _ \<Rightarrow> False) cs
      then Float64
      else Object)"

definition ref_common_type :: "dtype option list \<Rightarrow> dtype" where
  "ref_common_type ts =
     (case remdups (List.map_filter id ts) of
        [t] \<Rightarrow> if t = BoolT \<and> None \<in> set ts then Object else t
      | _ \<Rightarrow> Object)"

fun is_substring :: "string \<Rightarrow> string \<Rightarrow> bool" where
  "is_substring pat [] = (pat = [])"
| "is_substring pat (c # cs) = (take (length pat) (c # cs) = pat \<or> is_substring pat cs)"

definition ref_str_contains :: "string \<Rightarrow> cell \<Rightarrow> bool" where
  "ref_str_contains pat c =
     (case c of
        Str s \<Rightarrow> is_substring pat s
      | Null \<Rightarrow> is_substring pat ''nan''
      | Bool b \<Rightarrow> is_substring pat (if b then ''True'' else ''False'')
      | _ \<Rightarrow> False)"

definition ref_pandas :: pandas where
  "ref_pandas =
     \<lparr>to_numeric = ref_to_numeric, to_datetime = ref_to_datetime,
      infer_dtype = ref_infer_dtype, common_type = ref_common_type,
      str_contains = ref_str_contains\<rparr>"

section \<open>Vocabulary of the proofs\<close>

text \<open>
  A column is typed when it is a column of the frame, every dtype the frame records for its
  name is \<open>t\<close>, and every cell of it satisfies \<open>P\<close>.
\<close>

definition typed_column :: "dataframe \<Rightarrow> string \<Rightarrow> dtype \<Rightarrow> (cell \<Rightarrow> bool) \<Rightarrow> bool" where
  "typed_column df c t P =
     (has_column df c \<and> (\<forall>t'. (c, t') \<in> set (columns df) \<longrightarrow> t' = t) \<and> list_all P (column df c))"

definition time_or_null :: "cell \<Rightarrow> bool" where
  "time_or_null c = (c = Null \<or> (\<exists>t. c = Time t))"

definition num_or_null :: "cell \<Rightarrow> bool" where
  "num_or_null c = (c = Null \<or> (\<exists>x. c = Num x))"

text \<open>
  The rows held by the chunks of a loop state, the invariant of the fetch loop for a bound
  \<open>m\<close> on the rows, and an endpoint whose pages hold at most the rows asked for.
\<close>

definition fetched :: "pull_state \<Rightarrow> nat" where
  "fetched st = length (concat (map rows (chunks st)))"

definition loop_inv :: "int \<Rightarrow> pull_state \<Rightarrow> bool" where
  "loop_inv m st = (total_fetched st = int (fetched st) \<and> total_fetched st \<le> m)"

definition bounded_pages :: "endpoint \<Rightarrow> bool" where
  "bounded_pages api =
     (\<forall>off lim batch. 0 < lim \<longrightarrow> api off lim = Some batch \<longrightarrow> int (length batch) \<le> lim)"


section \<open>Sample data\<close>

text \<open>
  Three records as the API sends them (every value a string): two carry the same
  \<^verbatim>\<open>id_contrato\<close>, the third has no start date. The sample endpoint serves them by
  offset and limit. \<open>fetched_frame\<close> and \<open>first_frame\<close> are the frames built from all three
  and from the first; \<open>saved_frame\<close> and \<open>saved_first\<close> are what cleaning leaves of them.
\<close>

definition contract_a :: dict where
  "contract_a =
     [(''id_contrato'', Str ''CO1.PCCNTR.1001''), (''valor_del_contrato'', Str ''1500000''),
      (''dias_adicionados'', Str ''0''),
      (''fecha_de_inicio_del_contrato'', Str ''2020-03-01T00:00:00.000'')]"

definition contract_a_again :: dict where
  "contract_a_again =
     [(''id_contrato'', Str ''CO1.PCCNTR.1001''), (''valor_del_contrato'', Str ''990000''),
      (''dias_adicionados'', Str ''15''),
      (''fecha_de_inicio_del_contrato'', Str ''2020-03-11T00:00:00.000'')]"

definition contract_undated :: dict where
  "contract_undated =
     [(''id_contrato'', Str ''CO1.PCCNTR.1003''), (''valor_del_contrato'', Str ''700000''),
      (''dias_adicionados'', Str ''0'')]"

definition sample_page :: "dict list" where
  "sample_page = [contract_a, contract_a_again, contract_undated]"

definition sample_endpoint :: endpoint where
  "sample_endpoint start limit = Some (take (nat limit) (drop (nat start) sample_page))"

definition fetched_frame :: dataframe where
  "fetched_frame = DataFrame ref_pandas sample_page"

definition first_frame :: dataframe where
  "first_frame = DataFrame ref_pandas [contract_a]"

definition saved_a :: dict where
  "saved_a =
     [(''id_contrato'', Str ''CO1.PCCNTR.1001''), (''valor_del_contrato'', Num (Fin 1500000)),
      (''dias_adicionados'', Num (Fin 0)),
      (''fecha_de_inicio_del_contrato'',
       Time \<lparr>year = 2020, month = 3, day = 1, hour = 0, minute = 0, second = 0\<rparr>)]"

definition saved_a_again :: dict where
  "saved_a_again =
     [(''id_contrato'', Str ''CO1.PCCNTR.1001''), (''valor_del_contrato'', Num (Fin 990000)),
      (''dias_adicionados'', Num (Fin 15)),
      (''fecha_de_inicio_del_contrato'',
       Time \<lparr>year = 2020, month = 3, day = 11, hour = 0, minute = 0, second = 0\<rparr>)]"

definition saved_columns :: "(string \<times> dtype) list" where
  "saved_columns =
     [(''id_contrato'', Object), (''valor_del_contrato'', Float64),
      (''dias_adicionados'', Float64), (''fecha_de_inicio_del_contrato'', Datetime64)]"

definition saved_frame :: dataframe where
  "saved_frame = \<lparr>columns = saved_columns, rows = [(0, saved_a), (1, saved_a_again)]\<rparr>"

definition saved_first :: dataframe where
  "saved_first = \<lparr>columns = saved_columns, rows = [(0, saved_a)]\<rparr>"







text \<open>
  A scored table of four contracts, for the dashboard's filters.
\<close>

definition scored_row :: "int \<Rightarrow> string \<Rightarrow> string \<Rightarrow> dict" where
  "scored_row y t s =
     [(''year'', Num (Fin (of_int y))), (''risk_tier'', Str t), (''sector'', Str s),
      (''departamento'', Str ''Antioquia'')]"

definition scored_frame :: dataframe where
  "scored_frame =
     \<lparr>columns = [(''year'', Float64), (''risk_tier'', Object), (''sector'', Object),
                 (''departamento'', Object)],
      rows = [(0, scored_row 2019 ''High'' ''Salud''), (1, scored_row 2021 ''High'' ''Salud''),
              (2, scored_row 2020 ''Low'' ''Salud''), (3, scored_row 2020 ''High'' ''Transporte'')]\<rparr>"

section \<open>Rounding to binary64\<close>

text \<open>
  For a positive \<open>x\<close>, \<open>binade x\<close> is the exponent of its binade, and \<open>double x\<close> is a
  53-bit significand times \<open>2 ^ (binade x - 52)\<close>, as near to \<open>x\<close> as any multiple of that
  power of two: within half a unit in the last place.
\<close>

lemma pow2_powi: "pow2 e = 2 powi e"
  by (simp add: pow2_def power_int_def power_one_over inverse_eq_divide)

lemma pow2_pos: "0 < pow2 e"
  by (simp add: pow2_powi)

lemma pow2_add: "pow2 (a + b) = pow2 a * pow2 b"
  by (simp add: pow2_powi power_int_add)

lemma pow2_mono: "a \<le> b \<Longrightarrow> pow2 a \<le> pow2 b"
  by (simp add: pow2_powi power_int_increasing)

lemma pow2_nat: "0 \<le> e \<Longrightarrow> pow2 e = 2 ^ nat e"
  by (simp add: pow2_def)

lemma bitlen_pow2:
  assumes "0 < p"
  shows "pow2 (bitlen p - 1) \<le> of_int p \<and> of_int p < pow2 (bitlen p)"
proof -
  from assms have b: "1 \<le> bitlen p" by (auto simp: bitlen_alt_def)
  from bitlen_bounds[OF assms] have 1: "(2::int) ^ nat (bitlen p - 1) \<le> p" and 2: "p < 2 ^ nat (bitlen p)"
    by auto
  from 1 have "(of_int ((2::int) ^ nat (bitlen p - 1)) :: rat) \<le> of_int p"
    by (simp only: of_int_le_iff)
  moreover from 2 have "(of_int p :: rat) < of_int (2 ^ nat (bitlen p))"
    by (simp only: of_int_less_iff)
  ultimately show ?thesis using b by (simp add: pow2_nat)
qed

lemma binade_bounds:
  assumes "0 < x"
  shows "pow2 (binade x) \<le> x \<and> x < pow2 (binade x + 1)"
proof -
  obtain p q where pq: "quotient_of x = (p, q)" by (cases "quotient_of x")
  then have q: "0 < q" and x: "x = of_int p / of_int q"
    by (auto dest: quotient_of_denom_pos quotient_of_div)
  from assms q x have p: "0 < p"
    by (simp add: zero_less_divide_iff)
  let ?e = "bitlen p - bitlen q"
  from bitlen_pow2[OF p] bitlen_pow2[OF q]
  have bp: "pow2 (bitlen p - 1) \<le> of_int p" "of_int p < pow2 (bitlen p)"
    and bq: "pow2 (bitlen q - 1) \<le> of_int q" "of_int q < pow2 (bitlen q)"
    by auto
  have qr: "(0::rat) < of_int q" using q by simp
  have "x * of_int q = of_int p" using x qr by simp
  have up: "x < pow2 (?e + 1)"
  proof -
    have "of_int p < pow2 (bitlen p)" by (rule bp(2))
    also have "\<dots> = pow2 (?e + 1) * pow2 (bitlen q - 1)"
      by (simp add: pow2_add[symmetric])
    also have "\<dots> \<le> pow2 (?e + 1) * of_int q"
      using bq(1) pow2_pos[of "?e + 1"] by (simp add: mult_le_cancel_left_pos)
    finally show ?thesis using qr by (simp add: x pos_divide_less_eq)
  qed
  have lo: "pow2 (?e - 1) \<le> x"
  proof -
    have "pow2 (?e - 1) * of_int q \<le> pow2 (?e - 1) * pow2 (bitlen q)"
      using bq(2) pow2_pos[of "?e - 1"] by (simp add: mult_le_cancel_left_pos)
    also have "\<dots> = pow2 (bitlen p - 1)"
      by (simp add: pow2_add[symmetric])
    also have "\<dots> \<le> of_int p" by (rule bp(1))
    finally show ?thesis using qr by (simp add: x pos_le_divide_eq)
  qed
  show ?thesis
  proof (cases "pow2 ?e \<le> x")
    case True
    then have "binade x = ?e" by (simp add: binade_def pq)
    with True up show ?thesis by simp
  next
    case False
    then have "binade x = ?e - 1" by (simp add: binade_def pq)
    with False lo show ?thesis by simp
  qed
qed

lemma round_half_even_nearest: "\<bar>of_int (round_half_even y) - y\<bar> \<le> \<bar>of_int k - y\<bar>"
proof -
  let ?f = "\<lfloor>y\<rfloor>"
  let ?d = "y - of_int ?f"
  have d: "0 \<le> ?d" "?d < 1" by linarith+
  have k: "k \<le> ?f \<or> ?f + 1 \<le> k" by linarith
  have lo: "?d \<le> \<bar>of_int k - y\<bar>" if "k \<le> ?f"
  proof -
    from that have "(of_int k :: rat) \<le> of_int ?f" by (simp only: of_int_le_iff)
    then show ?thesis by linarith
  qed
  have hi: "1 - ?d \<le> \<bar>of_int k - y\<bar>" if "?f + 1 \<le> k"
  proof -
    from that have "(of_int (?f + 1) :: rat) \<le> of_int k" by (simp only: of_int_le_iff)
    then show ?thesis by simp
  qed
  have r: "(round_half_even y = ?f \<and> ?d \<le> 1 / 2) \<or> (round_half_even y = ?f + 1 \<and> 1 / 2 \<le> ?d)"
    by (auto simp: round_half_even_def Let_def)
  then show ?thesis
  proof
    assume a: "round_half_even y = ?f \<and> ?d \<le> 1 / 2"
    then have "\<bar>of_int (round_half_even y) - y\<bar> = ?d" using d by simp
    with a k lo hi show ?thesis by linarith
  next
    assume a: "round_half_even y = ?f + 1 \<and> 1 / 2 \<le> ?d"
    then have "\<bar>of_int (round_half_even y) - y\<bar> = 1 - ?d" using d by simp
    with a k lo hi show ?thesis by linarith
  qed
qed

lemma round_half_even_half: "\<bar>of_int (round_half_even y) - y\<bar> \<le> 1 / 2"
proof -
  let ?f = "\<lfloor>y\<rfloor>"
  let ?d = "y - of_int ?f"
  have d: "0 \<le> ?d" "?d < 1" by linarith+
  have "(round_half_even y = ?f \<and> ?d \<le> 1 / 2) \<or> (round_half_even y = ?f + 1 \<and> 1 / 2 \<le> ?d)"
    by (auto simp: round_half_even_def Let_def)
  then show ?thesis using d by auto
qed

lemma double_positive:
  assumes "0 < x"
  shows "double x = of_int (round_half_even (x / pow2 (binade x - 52))) * pow2 (binade x - 52)"
  using assms by (simp add: double_def Let_def)

lemma double_nearest:
  assumes "0 < x"
  shows "(\<exists>m. double x = of_int m * pow2 (binade x - 52) \<and> 2 ^ 52 \<le> m \<and> m \<le> 2 ^ 53)
       \<and> (\<forall>k. \<bar>double x - x\<bar> \<le> \<bar>of_int k * pow2 (binade x - 52) - x\<bar>)
       \<and> \<bar>double x - x\<bar> \<le> pow2 (binade x - 53)"
proof -
  let ?e = "binade x - 52"
  let ?P = "pow2 ?e"
  let ?y = "x / ?P"
  let ?r = "round_half_even ?y"
  have P: "0 < ?P" by (rule pow2_pos)
  have x: "x = ?y * ?P" using P by simp
  have dx: "double x = of_int ?r * ?P" using assms by (rule double_positive)
  have scale: "\<bar>of_int k * ?P - x\<bar> = \<bar>of_int k - ?y\<bar> * ?P" for k :: int
  proof -
    have "of_int k * ?P - x = (of_int k - ?y) * ?P"
      using P by (simp add: algebra_simps)
    then show ?thesis using P by (simp add: abs_mult)
  qed
  from binade_bounds[OF assms] have lo: "pow2 (binade x) \<le> x" and hi: "x < pow2 (binade x + 1)"
    by auto
  have "pow2 (binade x) = pow2 52 * ?P" "pow2 (binade x + 1) = pow2 53 * ?P"
    using pow2_add[of 52 ?e] pow2_add[of 53 ?e] by (simp_all add: add.commute)
  with lo hi P have y: "2 ^ 52 \<le> ?y" "?y < 2 ^ 53"
    by (simp_all add: pos_le_divide_eq pos_divide_less_eq pow2_def)
  have r_lo: "2 ^ 52 \<le> ?r"
  proof (rule ccontr)
    assume "\<not> 2 ^ 52 \<le> ?r"
    then have "?r \<le> 2 ^ 52 - 1" by simp
    then have "(of_int ?r :: rat) \<le> of_int (2 ^ 52 - 1)" by (simp only: of_int_le_iff)
    then have "(of_int ?r :: rat) \<le> 2 ^ 52 - 1" by simp
    moreover from round_half_even_nearest[of ?y "2 ^ 52"]
    have "\<bar>of_int ?r - ?y\<bar> \<le> \<bar>2 ^ 52 - ?y\<bar>" by simp
    ultimately show False using y by linarith
  qed
  have r_hi: "?r \<le> 2 ^ 53"
  proof (rule ccontr)
    assume "\<not> ?r \<le> 2 ^ 53"
    then have "2 ^ 53 + 1 \<le> ?r" by simp
    then have "(of_int (2 ^ 53 + 1) :: rat) \<le> of_int ?r" by (simp only: of_int_le_iff)
    then have "(2 ^ 53 + 1 :: rat) \<le> of_int ?r" by simp
    moreover from round_half_even_nearest[of ?y "2 ^ 53"]
    have "\<bar>of_int ?r - ?y\<bar> \<le> \<bar>2 ^ 53 - ?y\<bar>" by simp
    ultimately show False using y by linarith
  qed
  have 1: "\<exists>m. double x = of_int m * ?P \<and> 2 ^ 52 \<le> m \<and> m \<le> 2 ^ 53"
    using dx r_lo r_hi by blast
  have 2: "\<bar>double x - x\<bar> \<le> \<bar>of_int k * ?P - x\<bar>" for k
    unfolding dx scale using round_half_even_nearest[of ?y k] P
    by (simp add: mult_le_cancel_right)
  have "\<bar>double x - x\<bar> \<le> (1 / 2) * ?P"
    unfolding dx scale using round_half_even_half[of ?y] P
    by (simp only: mult_le_cancel_right) simp
  also have "(1 / 2) * ?P = pow2 (binade x - 53)"
  proof -
    have "pow2 (binade x - 53) = pow2 (- 1) * ?P" using pow2_add[of "- 1" ?e] by simp
    then show ?thesis by (simp add: pow2_def)
  qed
  finally have 3: "\<bar>double x - x\<bar> \<le> pow2 (binade x - 53)" .
  from 1 2 3 show ?thesis by blast
qed

subsection \<open>The literals of the configuration\<close>

lemma double_055: "double (55 / 100) = 4953959590107546 / 2 ^ 53"
  by code_simp

lemma double_025: "double (25 / 100) = 1 / 4"
  by code_simp

lemma double_010: "double (10 / 100) = 7205759403792794 / 2 ^ 56"
  by code_simp

lemma double_03: "double (3 / 10) = 5404319552844595 / 2 ^ 54"
  by code_simp

lemma double_06: "double (6 / 10) = 5404319552844595 / 2 ^ 53"
  by code_simp

section \<open>Facts about tables\<close>

lemma dict_get_set: "dict_get (dict_set d k v) k' = (if k' = k then v else dict_get d k')"
  by (induction d) (auto simp: dict_get_def)

lemma select_by_map: "map fst (filter snd (zip xs (map g xs))) = filter g xs"
  by (induction xs) auto

lemma bind_Inr_iff: "bind x f = Inr y \<longleftrightarrow> (\<exists>a. x = Inr a \<and> f a = Inr y)"
  by (cases x) (auto simp: bind_def)

lemma getitem_Inr_iff: "getitem df c = Inr xs \<longleftrightarrow> has_column df c \<and> xs = column df c"
  by (auto simp: getitem_def)

lemma rows_getitem_mask_subset: "set (rows (getitem_mask df keep)) \<subseteq> set (rows df)"
proof -
  have "set (map fst (filter snd (zip xs ks))) \<subseteq> set xs" for xs :: "(nat \<times> dict) list" and ks :: "bool list"
    by (auto dest: set_zip_leftD)
  then show ?thesis by (simp add: getitem_mask_def)
qed

lemma gt_zero_column:
  "gt_zero (column df c) = map (\<lambda>(i, r). cell_cmp (\<lambda>x y. xlt y x) (dict_get r c) (Fin 0) = Some True) (rows df)"
  by (simp add: gt_zero_def column_def case_prod_unfold comp_def)

lemma rows_gt_zero:
  "rows (getitem_mask df (gt_zero (column df c)))
     = filter (\<lambda>(i, r). cell_cmp (\<lambda>x y. xlt y x) (dict_get r c) (Fin 0) = Some True) (rows df)"
  by (simp add: gt_zero_column getitem_mask_def select_by_map)

lemma dropna_Inr:
  assumes "dropna df cols = Inr out"
  shows "rows out = filter (\<lambda>(i, r). list_all (\<lambda>c. notna (dict_get r c)) cols) (rows df)"
    and "columns out = columns df" and "\<forall>c\<in>set cols. has_column df c"
proof -
  from assms have e: "filter (\<lambda>c. \<not> has_column df c) cols = []"
    by (auto simp: dropna_def split: list.splits)
  with assms show "rows out = filter (\<lambda>(i, r). list_all (\<lambda>c. notna (dict_get r c)) cols) (rows df)"
    by (auto simp: dropna_def getitem_mask_def select_by_map)
  from e assms show "columns out = columns df"
    by (auto simp: dropna_def getitem_mask_def)
  from e show "\<forall>c\<in>set cols. has_column df c"
    by (auto simp: filter_empty_conv)
qed

lemma zip_map_same: "zip xs (map g xs) = map (\<lambda>x. (x, g x)) xs"
  by (induction xs) auto

lemma rows_setitem_map:
  "rows (setitem df c t (map f (column df c)))
     = map (\<lambda>(i, r). (i, dict_set r c (f (dict_get r c)))) (rows df)"
  by (simp add: setitem_def column_def zip_map_same case_prod_unfold comp_def)

lemma column_setitem_map:
  "column (setitem df c t (map f (column df c))) c'
     = (if c' = c then map f (column df c) else column df c')"
proof -
  have "column (setitem df c t (map f (column df c))) c'
          = map (\<lambda>(i, r). dict_get r c') (map (\<lambda>(i, r). (i, dict_set r c (f (dict_get r c)))) (rows df))"
    by (simp only: column_def[of "setitem df c t (map f (column df c))" c'] rows_setitem_map)
  also have "\<dots> = (if c' = c then map f (column df c) else column df c')"
    by (simp add: column_def case_prod_unfold comp_def dict_get_set)
  finally show ?thesis .
qed

lemma has_column_setitem:
  "has_column df c \<Longrightarrow> has_column (setitem df c t vals) c' = has_column df c'"
  by (force simp: has_column_def setitem_def)

lemma dtype_setitem:
  "has_column df c \<Longrightarrow>
   (c', t') \<in> set (columns (setitem df c t vals))
     \<longleftrightarrow> (if c' = c then t' = t else (c', t') \<in> set (columns df))"
proof -
  assume h: "has_column df c"
  then obtain t0 where t0: "(c, t0) \<in> set (columns df)"
    by (auto simp: has_column_def)
  let ?g = "\<lambda>(c', t'). if c' = c then (c, t) else (c', t')"
  have cols: "set (columns (setitem df c t vals)) = ?g ` set (columns df)"
    using h by (simp add: setitem_def)
  show ?thesis
  proof (cases "c' = c")
    case True
    have "(c, t') \<in> ?g ` set (columns df) \<longleftrightarrow> t' = t"
    proof
      assume "(c, t') \<in> ?g ` set (columns df)"
      then show "t' = t" by (auto split: if_splits)
    next
      assume "t' = t"
      then have "(c, t') = ?g (c, t0)" by simp
      then show "(c, t') \<in> ?g ` set (columns df)" using t0 by (rule image_eqI)
    qed
    with True cols show ?thesis by simp
  next
    case False
    have "(c', t') \<in> ?g ` set (columns df) \<longleftrightarrow> (c', t') \<in> set (columns df)"
    proof
      assume "(c', t') \<in> ?g ` set (columns df)"
      then show "(c', t') \<in> set (columns df)" using False by (auto split: if_splits)
    next
      assume a: "(c', t') \<in> set (columns df)"
      have "(c', t') = ?g (c', t')" using False by simp
      then show "(c', t') \<in> ?g ` set (columns df)" using a by (rule image_eqI)
    qed
    with False cols show ?thesis by simp
  qed
qed

lemma select_dtypes_iff: "c \<in> set (select_dtypes df t) \<longleftrightarrow> (c, t) \<in> set (columns df)"
  by (force simp: select_dtypes_def)

lemma dtype_setitem_other:
  "c' \<noteq> c \<Longrightarrow> (c', t') \<in> set (columns (setitem df c t vals)) \<longleftrightarrow> (c', t') \<in> set (columns df)"
proof (cases "has_column df c")
  case True
  assume "c' \<noteq> c"
  with True show ?thesis by (simp add: dtype_setitem)
next
  case False
  assume "c' \<noteq> c"
  with False show ?thesis by (auto simp: setitem_def)
qed

lemma has_column_setitem_other:
  "has_column df c' \<Longrightarrow> has_column (setitem df c t vals) c'"
  by (force simp: has_column_def setitem_def)

lemma typed_column_setitem_self:
  assumes "has_column df c" and "\<And>x. P (f x)"
  shows "typed_column (setitem df c t (map f (column df c))) c t P"
  using assms
  by (simp add: typed_column_def has_column_setitem dtype_setitem column_setitem_map list_all_iff)

lemma typed_column_setitem_other:
  assumes "c' \<noteq> c" and "typed_column df c' t' P"
  shows "typed_column (setitem df c t (map f (column df c))) c' t' P"
  using assms
  by (simp add: typed_column_def has_column_setitem_other dtype_setitem_other column_setitem_map)

lemma length_rows_setitem_map:
  "length (rows (setitem df c t (map f (column df c)))) = length (rows df)"
  by (simp add: rows_setitem_map)

lemma time_or_null_time_cell: "time_or_null (time_cell v)"
  by (cases v) (simp_all add: time_or_null_def time_cell_def)

lemma num_or_null_num_cell: "num_or_null (num_cell v)"
  by (cases v) (simp_all add: num_or_null_def num_cell_def)

lemma typed_not_selected:
  "typed_column df c t P \<Longrightarrow> t \<noteq> t' \<Longrightarrow> c \<notin> set (select_dtypes df t')"
  by (auto simp: typed_column_def select_dtypes_iff)

lemma selected_has_column: "c \<in> set (select_dtypes df t) \<Longrightarrow> has_column df c"
  by (force simp: select_dtypes_iff has_column_def)

lemma typed_column_cell:
  "typed_column df c t P \<Longrightarrow> (i, r) \<in> set (rows df) \<Longrightarrow> P (dict_get r c)"
  by (force simp: typed_column_def column_def list_all_iff)

lemma rows_reset_index: "map snd (rows (reset_index df)) = map snd (rows df)"
  by (simp add: reset_index_def)

lemma has_column_getitem_mask: "has_column (getitem_mask df keep) c = has_column df c"
  by (simp add: has_column_def getitem_mask_def)

lemma select_twice:
  "map fst (filter snd (zip (map fst (filter snd (zip xs ks)))
                            (map g (map fst (filter snd (zip xs ks))))))
     = map fst (filter snd (zip xs (map (\<lambda>(x, y). x \<and> y) (zip ks (map g xs)))))"
proof (induction xs arbitrary: ks)
  case Nil
  then show ?case by simp
next
  case (Cons x xs)
  then show ?case by (cases ks) auto
qed

lemma getitem_mask_isin:
  "getitem_mask (getitem_mask df m) (isin (column (getitem_mask df m) c) vs)
     = getitem_mask df (and_mask m (isin (column df c) vs))"
proof -
  let ?g = "\<lambda>p :: nat \<times> dict. dict_get (snd p) c \<in> set vs"
  have l: "isin (column (getitem_mask df m) c) vs = map ?g (map fst (filter snd (zip (rows df) m)))"
    by (simp add: isin_def column_def getitem_mask_def case_prod_unfold comp_def)
  have r: "and_mask m (isin (column df c) vs) = map (\<lambda>(x, y). x \<and> y) (zip m (map ?g (rows df)))"
    by (simp add: and_mask_def isin_def column_def case_prod_unfold comp_def)
  have t: "getitem_mask (getitem_mask df m) k
             = df\<lparr>rows := map fst (filter snd (zip (map fst (filter snd (zip (rows df) m))) k))\<rparr>" for k
    by (simp add: getitem_mask_def)
  show ?thesis
    unfolding l r t by (simp only: getitem_mask_def select_twice)
qed

lemma length_rows_DataFrame: "length (rows (DataFrame pd batch)) = length batch"
  by (simp add: DataFrame_def Let_def)

lemma length_rows_pd_concat:
  "length (rows (pd_concat pd cs)) = length (concat (map rows cs))"
  by (simp add: pd_concat_def Let_def length_concat comp_def)



section \<open>Facts about whitespace stripping\<close>




section \<open>The steps of \<open>clean_dataframe\<close>\<close>

lemma clean_dataframe_Inr:
  assumes "clean_dataframe pd df = Inr out"
  obtains df1 df2 df3 df4 df5 where
    "has_column df ''valor_del_contrato''"
    "df1 = setitem df ''valor_del_contrato'' Float64
             (map (\<lambda>c. num_cell (to_numeric pd (column df ''valor_del_contrato'') c))
                (column df ''valor_del_contrato''))"
    "has_column df1 ''dias_adicionados''"
    "df2 = setitem df1 ''dias_adicionados'' Float64
             (map (\<lambda>c. fillna (Num (Fin 0)) (num_cell (to_numeric pd (column df1 ''dias_adicionados'') c)))
                (column df1 ''dias_adicionados''))"
    "df3 = fold (\<lambda>col d.
                  if has_column d col
                  then setitem d col Datetime64
                         (map (\<lambda>c. time_cell (to_datetime pd (column d col) c)) (column d col))
                  else d) DATE_COLS df2"
    "df4 = fold (\<lambda>col d. setitem d col Object (map str_strip (column d col)))
             (select_dtypes df3 Object) df3"
    "dropna df4 [''valor_del_contrato'', ''fecha_de_inicio_del_contrato''] = Inr df5"
    "out = reset_index (getitem_mask df5 (gt_zero (column df5 ''valor_del_contrato'')))"
  using assms unfolding clean_dataframe_def Let_def bind_Inr_iff getitem_Inr_iff
  by blast

lemma date_fold_typed_other:
  assumes "c' \<notin> set cols" and "typed_column d0 c' t P"
  shows "typed_column
           (fold (\<lambda>col d. if has_column d col
                          then setitem d col Datetime64
                                 (map (\<lambda>c. time_cell (to_datetime pd (column d col) c)) (column d col))
                          else d) cols d0) c' t P"
  using assms
proof (induction cols arbitrary: d0)
  case Nil
  then show ?case by simp
next
  case (Cons a cols)
  then have "c' \<noteq> a" and "c' \<notin> set cols" by auto
  with Cons show ?case
    by (simp add: typed_column_setitem_other)
qed


lemma date_fold_has_column:
  "has_column
     (fold (\<lambda>col d. if has_column d col
                    then setitem d col Datetime64
                           (map (\<lambda>c. time_cell (to_datetime pd (column d col) c)) (column d col))
                    else d) cols d0) c' = has_column d0 c'"
proof (induction cols arbitrary: d0)
  case Nil
  then show ?case by simp
next
  case (Cons a cols)
  then show ?case by (simp add: has_column_setitem)
qed

lemma date_fold_length:
  "length (rows
     (fold (\<lambda>col d. if has_column d col
                    then setitem d col Datetime64
                           (map (\<lambda>c. time_cell (to_datetime pd (column d col) c)) (column d col))
                    else d) cols d0)) = length (rows d0)"
proof (induction cols arbitrary: d0)
  case Nil
  then show ?case by simp
next
  case (Cons a cols)
  then show ?case by (simp add: length_rows_setitem_map)
qed

lemma date_fold_typed_self:
  assumes "has_column d0 c'" and "c' \<in> set cols \<or> typed_column d0 c' Datetime64 time_or_null"
  shows "typed_column
           (fold (\<lambda>col d. if has_column d col
                          then setitem d col Datetime64
                                 (map (\<lambda>c. time_cell (to_datetime pd (column d col) c)) (column d col))
                          else d) cols d0) c' Datetime64 time_or_null"
  using assms
proof (induction cols arbitrary: d0)
  case Nil
  then show ?case by simp
next
  case (Cons a cols)
  let ?step = "\<lambda>col d. if has_column d col
                          then setitem d col Datetime64
                                 (map (\<lambda>c. time_cell (to_datetime pd (column d col) c)) (column d col))
                          else d"
  have h: "has_column (?step a d0) c'"
    using Cons.prems(1) by (simp add: has_column_setitem)
  have t: "c' \<in> set cols \<or> typed_column (?step a d0) c' Datetime64 time_or_null"
  proof (cases "c' = a")
    case True
    then show ?thesis
      using Cons.prems(1) by (simp add: typed_column_setitem_self time_or_null_time_cell)
  next
    case False
    then show ?thesis
      using Cons.prems(2) by (auto simp: typed_column_setitem_other)
  qed
  from Cons.IH[OF h t] show ?case by simp
qed

lemma strip_fold_typed_other:
  assumes "c' \<notin> set cs" and "typed_column d0 c' t P"
  shows "typed_column (fold (\<lambda>col d. setitem d col Object (map str_strip (column d col))) cs d0) c' t P"
  using assms
proof (induction cs arbitrary: d0)
  case Nil
  then show ?case by simp
next
  case (Cons a cs)
  then have "c' \<noteq> a" and "c' \<notin> set cs" by auto
  with Cons show ?case
    by (simp add: typed_column_setitem_other)
qed

lemma strip_fold_has_column:
  "has_column d0 c' \<Longrightarrow>
   has_column (fold (\<lambda>col d. setitem d col Object (map str_strip (column d col))) cs d0) c'"
proof (induction cs arbitrary: d0)
  case Nil
  then show ?case by simp
next
  case (Cons a cs)
  then show ?case by (simp add: has_column_setitem_other)
qed

lemma strip_fold_has_column_rev:
  assumes "\<forall>c\<in>set cs. has_column d0 c"
    and "has_column (fold (\<lambda>col d. setitem d col Object (map str_strip (column d col))) cs d0) c'"
  shows "has_column d0 c'"
  using assms
proof (induction cs arbitrary: d0)
  case Nil
  then show ?case by simp
next
  case (Cons a cs)
  let ?d1 = "setitem d0 a Object (map str_strip (column d0 a))"
  have a: "has_column d0 a" using Cons.prems(1) by simp
  have "\<forall>c\<in>set cs. has_column ?d1 c"
    using Cons.prems(1) by (simp add: has_column_setitem_other)
  moreover have "has_column (fold (\<lambda>col d. setitem d col Object (map str_strip (column d col))) cs ?d1) c'"
    using Cons.prems(2) by simp
  ultimately have "has_column ?d1 c'" by (rule Cons.IH)
  then show ?case using a by (simp add: has_column_setitem)
qed

lemma strip_fold_length:
  "length (rows (fold (\<lambda>col d. setitem d col Object (map str_strip (column d col))) cs d0))
     = length (rows d0)"
proof (induction cs arbitrary: d0)
  case Nil
  then show ?case by simp
next
  case (Cons a cs)
  then show ?case by (simp add: length_rows_setitem_map)
qed


lemma valor_not_date: "''valor_del_contrato'' \<notin> set DATE_COLS"
  by (simp add: DATE_COLS_def)

lemma fecha_inicio_date: "''fecha_de_inicio_del_contrato'' \<in> set DATE_COLS"
  by (simp add: DATE_COLS_def)


lemma clean_dataframe_row:
  assumes "clean_dataframe pd df = Inr out" and "(i, r) \<in> set (rows out)"
  shows "\<exists>x t. dict_get r ''valor_del_contrato'' = Num x \<and> xlt (Fin 0) x
               \<and> dict_get r ''fecha_de_inicio_del_contrato'' = Time t"
proof -
  from assms(1) obtain df1 df2 df3 df4 df5 where
    h0: "has_column df ''valor_del_contrato''" and
    d1: "df1 = setitem df ''valor_del_contrato'' Float64
             (map (\<lambda>c. num_cell (to_numeric pd (column df ''valor_del_contrato'') c))
                (column df ''valor_del_contrato''))" and
    h1: "has_column df1 ''dias_adicionados''" and
    d2: "df2 = setitem df1 ''dias_adicionados'' Float64
             (map (\<lambda>c. fillna (Num (Fin 0)) (num_cell (to_numeric pd (column df1 ''dias_adicionados'') c)))
                (column df1 ''dias_adicionados''))" and
    d3: "df3 = fold (\<lambda>col d.
                  if has_column d col
                  then setitem d col Datetime64
                         (map (\<lambda>c. time_cell (to_datetime pd (column d col) c)) (column d col))
                  else d) DATE_COLS df2" and
    d4: "df4 = fold (\<lambda>col d. setitem d col Object (map str_strip (column d col)))
             (select_dtypes df3 Object) df3" and
    d5: "dropna df4 [''valor_del_contrato'', ''fecha_de_inicio_del_contrato''] = Inr df5" and
    o: "out = reset_index (getitem_mask df5 (gt_zero (column df5 ''valor_del_contrato'')))"
    by (rule clean_dataframe_Inr)
  \<comment> \<open>the value column stays numeric\<close>
  have v1: "typed_column df1 ''valor_del_contrato'' Float64 num_or_null"
    unfolding d1 using h0 by (rule typed_column_setitem_self) (rule num_or_null_num_cell)
  have v2: "typed_column df2 ''valor_del_contrato'' Float64 num_or_null"
    unfolding d2 using _ v1 by (rule typed_column_setitem_other) simp
  have v3: "typed_column df3 ''valor_del_contrato'' Float64 num_or_null"
    unfolding d3 using valor_not_date v2 by (rule date_fold_typed_other)
  have "''valor_del_contrato'' \<notin> set (select_dtypes df3 Object)"
    using v3 by (rule typed_not_selected) simp
  then have v4: "typed_column df4 ''valor_del_contrato'' Float64 num_or_null"
    unfolding d4 using v3 by (rule strip_fold_typed_other)
  \<comment> \<open>the start date is a column, of timestamps\<close>
  have h4: "has_column df4 ''fecha_de_inicio_del_contrato''"
    using dropna_Inr(3)[OF d5] by simp
  have "\<forall>c\<in>set (select_dtypes df3 Object). has_column df3 c"
    by (simp add: selected_has_column)
  then have "has_column df3 ''fecha_de_inicio_del_contrato''"
    using h4 unfolding d4 by (rule strip_fold_has_column_rev)
  then have h2: "has_column df2 ''fecha_de_inicio_del_contrato''"
    unfolding d3 by (simp only: date_fold_has_column)
  have f3: "typed_column df3 ''fecha_de_inicio_del_contrato'' Datetime64 time_or_null"
    unfolding d3 using h2 by (rule date_fold_typed_self) (simp only: fecha_inicio_date simp_thms)
  have "''fecha_de_inicio_del_contrato'' \<notin> set (select_dtypes df3 Object)"
    using f3 by (rule typed_not_selected) simp
  then have f4: "typed_column df4 ''fecha_de_inicio_del_contrato'' Datetime64 time_or_null"
    unfolding d4 using f3 by (rule strip_fold_typed_other)
  \<comment> \<open>the row passed both filters\<close>
  have r5: "rows df5 = filter (\<lambda>(i, r). list_all (\<lambda>c. notna (dict_get r c))
                 [''valor_del_contrato'', ''fecha_de_inicio_del_contrato'']) (rows df4)"
    using d5 by (rule dropna_Inr(1))
  from assms(2) have "r \<in> snd ` set (rows out)" by force
  then have "r \<in> set (map snd (rows (getitem_mask df5 (gt_zero (column df5 ''valor_del_contrato'')))))"
    unfolding o by (simp only: set_map[symmetric] rows_reset_index)
  then have "r \<in> snd ` {p \<in> set (rows df5).
      case p of (i, r) \<Rightarrow> cell_cmp (\<lambda>x y. xlt y x) (dict_get r ''valor_del_contrato'') (Fin 0) = Some True}"
    by (simp only: rows_gt_zero set_map set_filter)
  then obtain j where j: "(j, r) \<in> set (rows df5)"
      and g: "cell_cmp (\<lambda>x y. xlt y x) (dict_get r ''valor_del_contrato'') (Fin 0) = Some True"
    by fastforce
  from j r5 have j4: "(j, r) \<in> set (rows df4)"
    and n: "notna (dict_get r ''valor_del_contrato'')" "notna (dict_get r ''fecha_de_inicio_del_contrato'')"
    by auto
  from typed_column_cell[OF v4 j4] n(1) obtain x where x: "dict_get r ''valor_del_contrato'' = Num x"
    by (auto simp: num_or_null_def notna_def)
  from typed_column_cell[OF f4 j4] n(2) obtain t where t: "dict_get r ''fecha_de_inicio_del_contrato'' = Time t"
    by (auto simp: time_or_null_def notna_def)
  from g x have "xlt (Fin 0) x" by simp
  with x t show ?thesis by blast
qed

lemma clean_dataframe_length:
  assumes "clean_dataframe pd df = Inr out"
  shows "length (rows out) \<le> length (rows df)"
proof -
  from assms obtain df1 df2 df3 df4 df5 where
    d1: "df1 = setitem df ''valor_del_contrato'' Float64
             (map (\<lambda>c. num_cell (to_numeric pd (column df ''valor_del_contrato'') c))
                (column df ''valor_del_contrato''))" and
    d2: "df2 = setitem df1 ''dias_adicionados'' Float64
             (map (\<lambda>c. fillna (Num (Fin 0)) (num_cell (to_numeric pd (column df1 ''dias_adicionados'') c)))
                (column df1 ''dias_adicionados''))" and
    d3: "df3 = fold (\<lambda>col d.
                  if has_column d col
                  then setitem d col Datetime64
                         (map (\<lambda>c. time_cell (to_datetime pd (column d col) c)) (column d col))
                  else d) DATE_COLS df2" and
    d4: "df4 = fold (\<lambda>col d. setitem d col Object (map str_strip (column d col)))
             (select_dtypes df3 Object) df3" and
    d5: "dropna df4 [''valor_del_contrato'', ''fecha_de_inicio_del_contrato''] = Inr df5" and
    o: "out = reset_index (getitem_mask df5 (gt_zero (column df5 ''valor_del_contrato'')))"
    by (rule clean_dataframe_Inr)
  have "length (rows df4) = length (rows df)"
    unfolding d4 d3 d2 d1
    by (simp only: strip_fold_length date_fold_length length_rows_setitem_map)
  moreover have "length (rows df5) \<le> length (rows df4)"
    unfolding dropna_Inr(1)[OF d5] by (rule length_filter_le)
  moreover have "length (rows out) \<le> length (rows df5)"
    unfolding o by (simp add: reset_index_def rows_gt_zero)
  ultimately show ?thesis by simp
qed










section \<open>The fetch loop of \<open>pull_data\<close>\<close>

lemma page_limit_cap: "page_limit (Some m) st \<le> m - total_fetched st"
  by (simp add: page_limit_def)

lemma loop_body_cases:
  assumes "loop_body pd max_rows api st = res"
  shows "(res = Break st)
       \<or> (\<exists>batch. api (offset st) (page_limit max_rows st) = Some batch \<and> batch \<noteq> []
            \<and> \<not> (max_rows \<noteq> None \<and> page_limit max_rows st \<le> 0)
            \<and> (let st' = \<lparr>chunks = chunks st @ [DataFrame pd batch],
                            offset = offset st + int (length batch),
                            total_fetched = total_fetched st + int (length batch)\<rparr>
               in res = (if int (length batch) < page_limit max_rows st then Break st' else Continue st')))"
  using assms
  by (auto simp: loop_body_def Let_def fetch_page_def split: if_splits option.splits sum.splits)

lemma loop_body_inv:
  assumes "bounded_pages api" and "loop_inv m st"
    and "loop_body pd (Some m) api st = Break st' \<or> loop_body pd (Some m) api st = Continue st'"
  shows "loop_inv m st'"
proof -
  from assms(3) obtain res where res: "loop_body pd (Some m) api st = res"
    and r: "res = Break st' \<or> res = Continue st'" by auto
  from loop_body_cases[OF res] show ?thesis
  proof
    assume "res = Break st"
    with r have "st' = st" by auto
    with assms(2) show ?thesis by simp
  next
    assume "\<exists>batch. api (offset st) (page_limit (Some m) st) = Some batch \<and> batch \<noteq> []
            \<and> \<not> (Some m \<noteq> None \<and> page_limit (Some m) st \<le> 0)
            \<and> (let st' = \<lparr>chunks = chunks st @ [DataFrame pd batch],
                            offset = offset st + int (length batch),
                            total_fetched = total_fetched st + int (length batch)\<rparr>
               in res = (if int (length batch) < page_limit (Some m) st then Break st' else Continue st'))"
    then obtain batch where b: "api (offset st) (page_limit (Some m) st) = Some batch"
      and pos: "0 < page_limit (Some m) st"
      and st': "st' = \<lparr>chunks = chunks st @ [DataFrame pd batch],
                            offset = offset st + int (length batch),
                            total_fetched = total_fetched st + int (length batch)\<rparr>"
      using r by (auto simp: Let_def split: if_splits)
    from assms(1) pos b have "int (length batch) \<le> page_limit (Some m) st"
      unfolding bounded_pages_def by blast
    also have "\<dots> \<le> m - total_fetched st" by (rule page_limit_cap)
    finally have "total_fetched st + int (length batch) \<le> m" by simp
    moreover have "fetched st' = fetched st + length batch"
      unfolding st' by (simp add: fetched_def length_rows_DataFrame)
    ultimately show ?thesis
      using assms(2) unfolding loop_inv_def st' by simp
  qed
qed

lemma loop_states_inv:
  assumes "\<forall>api\<in>set apis. bounded_pages api" and "loop_inv m st"
  shows "\<forall>s\<in>set (loop_states pd (Some m) apis st). loop_inv m s"
  using assms
proof (induction apis arbitrary: st)
  case Nil
  then show ?case by simp
next
  case (Cons api apis)
  then have b: "bounded_pages api" and bs: "\<forall>api\<in>set apis. bounded_pages api" by auto
  show ?case
  proof (cases "loop_body pd (Some m) api st")
    case (Break st')
    then have "loop_inv m st'" using loop_body_inv[OF b Cons.prems(2)] by blast
    with Break Cons.prems(2) show ?thesis by simp
  next
    case (Continue st')
    then have "loop_inv m st'" using loop_body_inv[OF b Cons.prems(2)] by blast
    from Cons.IH[OF bs this] Continue Cons.prems(2) show ?thesis by simp
  qed
qed

lemma fetch_loop_in_states:
  "fetch_loop pd max_rows apis st = Some st' \<Longrightarrow> st' \<in> set (loop_states pd max_rows apis st)"
proof (induction apis arbitrary: st)
  case Nil
  then show ?case by (simp split: if_splits)
next
  case (Cons api apis)
  then show ?case by (cases "loop_body pd max_rows api st") auto
qed

lemma loop_body_Continue:
  assumes "loop_body pd max_rows api st = Continue st'"
  shows "total_fetched st + 1 \<le> total_fetched st'"
proof -
  from loop_body_cases[OF assms] obtain batch where "batch \<noteq> []"
    and "st' = \<lparr>chunks = chunks st @ [DataFrame pd batch],
                            offset = offset st + int (length batch),
                            total_fetched = total_fetched st + int (length batch)\<rparr>"
    by (auto simp: Let_def split: if_splits)
  then show ?thesis by (cases batch) auto
qed

lemma fetch_loop_returns:
  assumes "m - total_fetched st \<le> int (length apis)"
  shows "fetch_loop pd (Some m) apis st \<noteq> None"
  using assms
proof (induction apis arbitrary: st)
  case Nil
  then have "page_limit (Some m) st \<le> 0" by (simp add: page_limit_def)
  then show ?case by simp
next
  case (Cons api apis)
  show ?case
  proof (cases "loop_body pd (Some m) api st")
    case (Break st')
    then show ?thesis by simp
  next
    case (Continue st')
    from loop_body_Continue[OF this] Cons.prems have "m - total_fetched st' \<le> int (length apis)"
      by simp
    from Cons.IH[OF this] Continue show ?thesis by simp
  qed
qed

lemma pull_data_Saved:
  assumes "pull_data pd apis max_rows = Some (Inr (Saved df))"
  shows "\<exists>st. fetch_loop pd max_rows apis \<lparr>chunks = [], offset = 0, total_fetched = 0\<rparr> = Some st
            \<and> chunks st \<noteq> [] \<and> clean_dataframe pd (pd_concat pd (chunks st)) = Inr df"
  using assms
  by (auto simp: pull_data_def bind_def split: option.splits if_splits sum.splits)

section \<open>The query's date scope\<close>

lemma query_start: "parse_iso (TRAIN_START @ ''T00:00:00'')
    = Some \<lparr>year = 2019, month = 1, day = 1, hour = 0, minute = 0, second = 0\<rparr>"
  by code_simp

lemma query_end: "parse_iso (VALID_END @ ''T23:59:59'')
    = Some \<lparr>year = 2022, month = 8, day = 6, hour = 23, minute = 59, second = 59\<rparr>"
  by code_simp

lemma where_clause_year:
  assumes "where_clause d x"
  shows "2019 \<le> year d \<and> year d \<le> 2022"
proof -
  from assms have lo: "dt_le \<lparr>year = 2019, month = 1, day = 1, hour = 0, minute = 0, second = 0\<rparr> d"
    and hi: "dt_le d \<lparr>year = 2022, month = 8, day = 6, hour = 23, minute = 59, second = 59\<rparr>"
    by (simp_all add: where_clause_def query_start query_end)
  from lo have "2019 \<le> year d"
    by (auto simp: dt_le_def dt_key_def)
  moreover from hi have "year d \<le> 2022"
    by (auto simp: dt_le_def dt_key_def)
  ultimately show ?thesis ..
qed

lemma smmlv_scope:
  assumes "2019 \<le> y" and "y \<le> 2022"
  shows "y \<in> dom SMMLV"
proof -
  from assms have "y = 2019 \<or> y = 2020 \<or> y = 2021 \<or> y = 2022" by arith
  then show ?thesis by (auto simp: SMMLV_def)
qed

section \<open>The dashboard's filters\<close>

lemma filter_step:
  "bind (if vs \<noteq> []
         then bind (getitem (getitem_mask df m) c)
                (\<lambda>s. Inr (getitem_mask (getitem_mask df m) (isin s vs)))
         else Inr (getitem_mask df m)) k
   = bind (if vs \<noteq> [] then bind (getitem df c) (\<lambda>s. Inr (and_mask m (isin s vs))) else Inr m)
       (\<lambda>m'. k (getitem_mask df m'))"
  by (simp add: bind_def getitem_def has_column_getitem_mask getitem_mask_isin)

section \<open>The model run on the sample data\<close>

lemma fetch_all:
  "fetch_loop ref_pandas None [sample_endpoint] \<lparr>chunks = [], offset = 0, total_fetched = 0\<rparr>
     = Some \<lparr>chunks = [fetched_frame], offset = 3, total_fetched = 3\<rparr>"
  by code_simp

lemma concat_fetched: "pd_concat ref_pandas [fetched_frame] = fetched_frame"
  by code_simp

lemma clean_fetched: "clean_dataframe ref_pandas fetched_frame = Inr saved_frame"
  by code_simp

lemma fetch_one:
  "fetch_loop ref_pandas (Some 1) [sample_endpoint] \<lparr>chunks = [], offset = 0, total_fetched = 0\<rparr>
     = Some \<lparr>chunks = [first_frame], offset = 1, total_fetched = 1\<rparr>"
  by code_simp

lemma states_one:
  "loop_states ref_pandas (Some 1) [sample_endpoint] \<lparr>chunks = [], offset = 0, total_fetched = 0\<rparr>
     = [\<lparr>chunks = [], offset = 0, total_fetched = 0\<rparr>,
        \<lparr>chunks = [first_frame], offset = 1, total_fetched = 1\<rparr>]"
  by code_simp

lemma concat_first: "pd_concat ref_pandas [first_frame] = first_frame"
  by code_simp

lemma clean_first: "clean_dataframe ref_pandas first_frame = Inr saved_first"
  by code_simp








lemma apply_filters_sample:
  "apply_filters scored_frame (2019, 2020) [Str ''Salud''] [Str ''High'', Str ''Medium''] []
     = Inr (scored_frame\<lparr>rows := [(0, scored_row 2019 ''High'' ''Salud'')]\<rparr>)"
  by code_simp

lemma explorer_rows_sample:
  "explorer_rows ref_pandas scored_frame (2019, 2020) [Str ''Salud''] [Str ''High'', Str ''Medium''] []
       [] [] 0
     = Inr (scored_frame\<lparr>rows := [(0, scored_row 2019 ''High'' ''Salud'')]\<rparr>)"
  by code_simp

lemma pull_all: "pull_data ref_pandas [sample_endpoint] None = Some (Inr (Saved saved_frame))"
  unfolding pull_data_def fetch_all by (simp add: concat_fetched clean_fetched bind_def)

lemma pull_one: "pull_data ref_pandas [sample_endpoint] (Some 1) = Some (Inr (Saved saved_first))"
  unfolding pull_data_def fetch_one by (simp add: concat_first clean_first bind_def)

section \<open>The claims\<close>

text \<open>
  C1. The four combination weights are the floats written \<^verbatim>\<open>0.55\<close>, \<^verbatim>\<open>0.25\<close>, \<^verbatim>\<open>0.10\<close>
  and \<^verbatim>\<open>0.10\<close>: each is the binary64 number nearest to its decimal, within \<open>2\<^sup>-\<^sup>5\<^sup>4\<close> of it.
  Their sum is 1 to within \<open>10\<^sup>-\<^sup>9\<close>, as an exact sum of the four floats; added in floating
  point from left to right, it is exactly 1.
\<close>

theorem weights_values_and_sum:
  "WEIGHT_PROCESS_ANOMALY = double (55 / 100) \<and> WEIGHT_SPLITTING = double (25 / 100)
   \<and> WEIGHT_NETWORK = double (10 / 100) \<and> WEIGHT_COMMUNITY = double (10 / 100)
   \<and> \<bar>WEIGHT_PROCESS_ANOMALY - 55 / 100\<bar> \<le> 1 / 2 ^ 54
   \<and> \<bar>WEIGHT_SPLITTING - 25 / 100\<bar> \<le> 1 / 2 ^ 54
   \<and> \<bar>WEIGHT_NETWORK - 10 / 100\<bar> \<le> 1 / 2 ^ 54
   \<and> \<bar>WEIGHT_COMMUNITY - 10 / 100\<bar> \<le> 1 / 2 ^ 54
   \<and> \<bar>WEIGHT_PROCESS_ANOMALY + WEIGHT_SPLITTING + WEIGHT_NETWORK + WEIGHT_COMMUNITY - 1\<bar>
       \<le> 1 / 10 ^ 9
   \<and> \<bar>fadd (fadd (fadd WEIGHT_PROCESS_ANOMALY WEIGHT_SPLITTING) WEIGHT_NETWORK) WEIGHT_COMMUNITY
        - 1\<bar> \<le> 1 / 10 ^ 9
   \<and> fadd (fadd (fadd WEIGHT_PROCESS_ANOMALY WEIGHT_SPLITTING) WEIGHT_NETWORK) WEIGHT_COMMUNITY = 1"
proof -
  have s: "fadd (fadd (fadd (double (55 / 100)) (double (25 / 100))) (double (10 / 100)))
             (double (10 / 100)) = 1"
    by code_simp
  show ?thesis
    unfolding WEIGHT_PROCESS_ANOMALY_def WEIGHT_SPLITTING_def WEIGHT_NETWORK_def
      WEIGHT_COMMUNITY_def s
    unfolding double_055 double_025 double_010
    by simp
qed

text \<open>
  C2. Every row of the frame that \<^verbatim>\<open>clean_dataframe\<close> returns has a contract value and a
  start date that are not missing, and its contract value is a number strictly greater than
  0. This holds for every frame passed and for every behaviour of the library's parsers.
\<close>

theorem clean_dataframe_rows_valid:
  assumes "clean_dataframe pd df = Inr out"
  shows "\<forall>(i, r) \<in> set (rows out).
           notna (dict_get r ''valor_del_contrato'')
           \<and> notna (dict_get r ''fecha_de_inicio_del_contrato'')
           \<and> (\<exists>x. dict_get r ''valor_del_contrato'' = Num x \<and> xlt (Fin 0) x)"
  using clean_dataframe_row[OF assms] by (fastforce simp: notna_def)

text \<open>
  The theorem at the sample frame: cleaning succeeds, and the second row it keeps has its
  value and start date, the value positive.
\<close>

theorem clean_dataframe_rows_valid_witness:
  "clean_dataframe ref_pandas fetched_frame = Inr saved_frame
   \<and> (1, saved_a_again) \<in> set (rows saved_frame)
   \<and> notna (dict_get saved_a_again ''valor_del_contrato'')
   \<and> notna (dict_get saved_a_again ''fecha_de_inicio_del_contrato'')
   \<and> (\<exists>x. dict_get saved_a_again ''valor_del_contrato'' = Num x \<and> xlt (Fin 0) x)"
proof -
  have m: "(1, saved_a_again) \<in> set (rows saved_frame)"
    by (simp add: saved_frame_def)
  from clean_dataframe_rows_valid[OF clean_fetched] m clean_fetched
  show ?thesis by blast
qed




text \<open>
  C4. Every record that \<^verbatim>\<open>pull_data\<close> saves has a start date and a value; when they
  satisfy the query's \<^verbatim>\<open>$where\<close> clause, which bounds the start date by
  \<^verbatim>\<open>TRAIN_START\<close> and \<^verbatim>\<open>VALID_END\<close>, the year of the start date is a key of \<^verbatim>\<open>SMMLV\<close>.
\<close>

theorem saved_start_year_in_smmlv:
  assumes "pull_data pd apis max_rows = Some (Inr (Saved df))" and "(i, r) \<in> set (rows df)"
  shows "\<exists>d x. dict_get r ''fecha_de_inicio_del_contrato'' = Time d
               \<and> dict_get r ''valor_del_contrato'' = Num x
               \<and> (where_clause d x \<longrightarrow> year d \<in> dom SMMLV)"
proof -
  from pull_data_Saved[OF assms(1)] obtain st :: pull_state where
    "clean_dataframe pd (pd_concat pd (chunks st)) = Inr df"
    by blast
  from clean_dataframe_row[OF this assms(2)] obtain x d where
    "dict_get r ''valor_del_contrato'' = Num x" "dict_get r ''fecha_de_inicio_del_contrato'' = Time d"
    by blast
  moreover have "where_clause d x \<longrightarrow> year d \<in> dom SMMLV"
    using where_clause_year smmlv_scope by blast
  ultimately show ?thesis by blast
qed

text \<open>
  The theorem at the first record saved from the sample endpoint, which starts on 2020-03-01.
\<close>

theorem saved_start_year_in_smmlv_witness:
  "pull_data ref_pandas [sample_endpoint] None = Some (Inr (Saved saved_frame))
   \<and> (0, saved_a) \<in> set (rows saved_frame)
   \<and> dict_get saved_a ''fecha_de_inicio_del_contrato''
       = Time \<lparr>year = 2020, month = 3, day = 1, hour = 0, minute = 0, second = 0\<rparr>
   \<and> dict_get saved_a ''valor_del_contrato'' = Num (Fin 1500000)
   \<and> where_clause \<lparr>year = 2020, month = 3, day = 1, hour = 0, minute = 0, second = 0\<rparr> (Fin 1500000)
   \<and> 2020 \<in> dom SMMLV"
proof -
  let ?d = "\<lparr>year = 2020, month = 3, day = 1, hour = 0, minute = 0, second = 0\<rparr>"
  have m: "(0, saved_a) \<in> set (rows saved_frame)"
    by (simp add: saved_frame_def)
  have f: "dict_get saved_a ''fecha_de_inicio_del_contrato'' = Time ?d"
    and v: "dict_get saved_a ''valor_del_contrato'' = Num (Fin 1500000)"
    by (simp_all add: saved_a_def dict_get_def)
  have w: "where_clause ?d (Fin 1500000)"
    by (simp add: where_clause_def query_start query_end dt_le_def dt_key_def xlt_def)
  from saved_start_year_in_smmlv[OF pull_all m] f v w have "year ?d \<in> dom SMMLV"
    by auto
  with pull_all m f v w show ?thesis by simp
qed

text \<open>
  C5. The tier cut-points are the floats written \<^verbatim>\<open>0.3\<close> and \<^verbatim>\<open>0.6\<close>, the lower strictly
  below the higher. The tier is a function of the calibrated score alone: High exactly on the
  scores at or above \<^verbatim>\<open>TIER_HIGH\<close>, Medium exactly on those strictly between the two
  cut-points, Low exactly on those at or below \<^verbatim>\<open>TIER_LOW\<close>.
\<close>

theorem tier_cut_points:
  "TIER_LOW < TIER_HIGH \<and> TIER_LOW = double (3 / 10) \<and> TIER_HIGH = double (6 / 10)
   \<and> \<bar>TIER_LOW - 3 / 10\<bar> \<le> 1 / 2 ^ 54 \<and> \<bar>TIER_HIGH - 6 / 10\<bar> \<le> 1 / 2 ^ 54
   \<and> (\<forall>score. (risk_tier score = High) = (TIER_HIGH \<le> score)
         \<and> (risk_tier score = Medium) = (TIER_LOW < score \<and> score < TIER_HIGH)
         \<and> (risk_tier score = Low) = (score \<le> TIER_LOW))"
proof -
  have lt: "TIER_LOW < TIER_HIGH"
    unfolding TIER_LOW_def TIER_HIGH_def double_03 double_06 by simp
  have v: "\<bar>TIER_LOW - 3 / 10\<bar> \<le> 1 / 2 ^ 54" "\<bar>TIER_HIGH - 6 / 10\<bar> \<le> 1 / 2 ^ 54"
    unfolding TIER_LOW_def TIER_HIGH_def double_03 double_06 by simp_all
  have t: "(risk_tier score = High) = (TIER_HIGH \<le> score)
         \<and> (risk_tier score = Medium) = (TIER_LOW < score \<and> score < TIER_HIGH)
         \<and> (risk_tier score = Low) = (score \<le> TIER_LOW)" for score
    using lt by (auto simp: risk_tier_def in_high_band_def in_medium_band_def)
  show ?thesis using lt v t by (simp add: TIER_LOW_def TIER_HIGH_def)
qed

text \<open>
  C6, as stated, fails: the dashboard reads \<^verbatim>\<open>fecha_de_inicio_del_contrato\<close> from the
  per-contract table (when loading it, and for the monthly chart of an agency), and the start
  date is not among the fields the schema lists.
\<close>

theorem dashboard_reads_unpromised_start_date:
  "''fecha_de_inicio_del_contrato'' \<in> set contract_columns_read
   \<and> ''fecha_de_inicio_del_contrato'' \<notin> set per_contract_schema"
  by (simp add: contract_columns_read_def load_contracts_columns_def per_contract_schema_def)

text \<open>
  C6, amended. Every column the dashboard reads from the per-contract table is one of the
  fields of the schema or the start date \<^verbatim>\<open>fecha_de_inicio_del_contrato\<close>.
\<close>

theorem dashboard_columns_in_schema_or_start_date:
  "set contract_columns_read
     \<subseteq> set per_contract_schema \<union> {''fecha_de_inicio_del_contrato''}"
  by (simp add: contract_columns_read_def load_contracts_columns_def sidebar_columns_def
      apply_filters_columns_def tab1_columns_def tab2_columns_def tab3_columns_def
      display_cols_def per_contract_schema_def)

text \<open>
  C7. The rolling windows of the splitting detector are the three day-counts 30, 60 and 90,
  and the threshold-proximity percentage is the float written \<^verbatim>\<open>0.10\<close>.
\<close>

theorem splitting_parameters:
  "SPLITTING_WINDOWS_DAYS = [30, 60, 90] \<and> length SPLITTING_WINDOWS_DAYS = 3
   \<and> THRESHOLD_PROXIMITY_PCT = double (10 / 100)
   \<and> \<bar>THRESHOLD_PROXIMITY_PCT - 10 / 100\<bar> \<le> 1 / 2 ^ 57"
  unfolding SPLITTING_WINDOWS_DAYS_def THRESHOLD_PROXIMITY_PCT_def double_010 by simp

text \<open>
  C9. With an empty vendor search, an empty agency search and a minimum risk of 0, the rows
  of \<^verbatim>\<open>df\<close> that the Contract Explorer's mask selects are the rows that \<^verbatim>\<open>apply_filters\<close>
  returns for the same years, sectors, tiers and departments: the same rows under the same
  index labels, and the same exception when a column is missing or a year cannot be compared.
\<close>

theorem explorer_rows_eq_apply_filters:
  "explorer_rows pd df selected_years selected_sectors selected_tiers selected_dept [] [] 0
     = apply_filters df selected_years selected_sectors selected_tiers selected_dept"
proof -
  have s: "strip [] = []" by (simp add: strip_def)
  have "apply_filters df selected_years selected_sectors selected_tiers selected_dept
      = bind (getitem df ''year'') (\<lambda>ys.
        bind (between ys (fst selected_years) (snd selected_years)) (\<lambda>m.
        bind (if selected_tiers \<noteq> []
              then bind (getitem df ''risk_tier'') (\<lambda>s. Inr (and_mask m (isin s selected_tiers)))
              else Inr m) (\<lambda>m.
        bind (if selected_sectors \<noteq> []
              then bind (getitem df ''sector'') (\<lambda>s. Inr (and_mask m (isin s selected_sectors)))
              else Inr m) (\<lambda>m.
        bind (if selected_dept \<noteq> []
              then bind (getitem df ''departamento'') (\<lambda>s. Inr (and_mask m (isin s selected_dept)))
              else Inr m) (\<lambda>m.
        Inr (getitem_mask df m))))))"
    unfolding apply_filters_def Let_def filter_step ..
  also have "\<dots> = explorer_rows pd df selected_years selected_sectors selected_tiers
                      selected_dept [] [] 0"
    unfolding explorer_rows_def explorer_mask_def s
    by (simp add: bind_def split: sum.splits)
  finally show ?thesis by simp
qed

text \<open>
  C10. For a positive \<^verbatim>\<open>max_rows\<close> and an endpoint whose pages hold at most the rows asked
  for, every state of the fetch loop has \<^verbatim>\<open>total_fetched\<close> at most \<^verbatim>\<open>max_rows\<close> and a page
  limit of at most \<^verbatim>\<open>max_rows - total_fetched\<close>; an iteration whose page limit is 0 or less
  ends the loop without a request; the frame saved has at most \<^verbatim>\<open>max_rows\<close> rows; and the
  loop ends within \<^verbatim>\<open>max_rows\<close> requests.
\<close>

theorem fetch_loop_total_bounded:
  assumes "0 < m"
    and "\<forall>api\<in>set apis. \<forall>off lim batch.
           0 < lim \<longrightarrow> api off lim = Some batch \<longrightarrow> int (length batch) \<le> lim"
  shows "(\<forall>st\<in>set (loop_states pd (Some m) apis \<lparr>chunks = [], offset = 0, total_fetched = 0\<rparr>).
            total_fetched st \<le> m \<and> page_limit (Some m) st \<le> m - total_fetched st)
       \<and> (\<forall>api st. page_limit (Some m) st \<le> 0 \<longrightarrow> loop_body pd (Some m) api st = Break st)
       \<and> (\<forall>df. pull_data pd apis (Some m) = Some (Inr (Saved df)) \<longrightarrow> int (length (rows df)) \<le> m)
       \<and> (m \<le> int (length apis) \<longrightarrow> pull_data pd apis (Some m) \<noteq> None)"
proof -
  let ?init = "\<lparr>chunks = [], offset = 0, total_fetched = 0\<rparr>"
  have 0: "loop_body pd (Some m) api st = Break st" if "page_limit (Some m) st \<le> 0" for api st
    using that by (simp add: loop_body_def)
  have b: "\<forall>api\<in>set apis. bounded_pages api"
    using assms(2) unfolding bounded_pages_def by blast
  have i: "loop_inv m ?init"
    using assms(1) by (simp add: loop_inv_def fetched_def)
  have states: "\<forall>s\<in>set (loop_states pd (Some m) apis ?init). loop_inv m s"
    using b i by (rule loop_states_inv)
  have 1: "\<forall>st\<in>set (loop_states pd (Some m) apis ?init).
            total_fetched st \<le> m \<and> page_limit (Some m) st \<le> m - total_fetched st"
    using states page_limit_cap unfolding loop_inv_def by blast
  have 2: "int (length (rows df)) \<le> m" if s: "pull_data pd apis (Some m) = Some (Inr (Saved df))" for df
  proof -
    from pull_data_Saved[OF s] obtain st :: pull_state where
      f: "fetch_loop pd (Some m) apis ?init = Some st" and
      c: "clean_dataframe pd (pd_concat pd (chunks st)) = Inr df"
      by blast
    from fetch_loop_in_states[OF f] states have "loop_inv m st" by blast
    then have "int (length (rows (pd_concat pd (chunks st)))) \<le> m"
      by (simp add: loop_inv_def fetched_def length_rows_pd_concat)
    with clean_dataframe_length[OF c] show ?thesis by simp
  qed
  have 3: "pull_data pd apis (Some m) \<noteq> None" if "m \<le> int (length apis)"
  proof -
    from that have "fetch_loop pd (Some m) apis ?init \<noteq> None"
      by (intro fetch_loop_returns) simp
    then show ?thesis by (auto simp: pull_data_def)
  qed
  from 0 1 2 3 show ?thesis by blast
qed

text \<open>
  The theorem at the sample endpoint with \<^verbatim>\<open>max_rows = 1\<close>: one record is fetched of the
  three on offer, and one row is saved.
\<close>

theorem fetch_loop_total_bounded_witness:
  "(0::int) < 1
   \<and> loop_states ref_pandas (Some 1) [sample_endpoint] \<lparr>chunks = [], offset = 0, total_fetched = 0\<rparr>
       = [\<lparr>chunks = [], offset = 0, total_fetched = 0\<rparr>,
          \<lparr>chunks = [first_frame], offset = 1, total_fetched = 1\<rparr>]
   \<and> total_fetched \<lparr>chunks = [first_frame], offset = 1, total_fetched = 1\<rparr> \<le> 1
   \<and> pull_data ref_pandas [sample_endpoint] (Some 1) = Some (Inr (Saved saved_first))
   \<and> int (length (rows saved_first)) \<le> 1
   \<and> pull_data ref_pandas [sample_endpoint] (Some 1) \<noteq> None"
proof -
  have b: "\<forall>api\<in>set [sample_endpoint]. \<forall>off lim batch.
             0 < lim \<longrightarrow> api off lim = Some batch \<longrightarrow> int (length batch) \<le> lim"
    by (auto simp: sample_endpoint_def)
  have p: "(0::int) < 1" by simp
  from fetch_loop_total_bounded[OF p b, of ref_pandas] states_one pull_one
  show ?thesis by simp
qed

end
